theory Spec2Isabelle
  imports Main
begin

section \<open>Strings\<close>

text \<open>
  A JavaScript string is modelled as a \<^typ>\<open>string\<close>. A \<^typ>\<open>char\<close> stands for
  one UTF-16 code unit in the range U+0000 .. U+00FF (Basic Latin and Latin-1
  Supplement); on that range \<open>toLowerCase\<close>, the regular-expression class \<open>\s\<close> and
  \<open>trim\<close> are modelled exactly. Code units above U+00FF are outside the model.
\<close>

definition code :: "char \<Rightarrow> nat" where
  "code c = of_char c"

text \<open>
  The class \<open>\s\<close> (and the characters \<open>trim\<close> removes): TAB, LF, VT, FF, CR,
  SPACE and NO-BREAK SPACE are the members below U+0100.
\<close>

definition is_space :: "char \<Rightarrow> bool" where
  "is_space c = (code c \<in> {9, 10, 11, 12, 13, 32, 160})"

text \<open>
  \<open>String.prototype.toLowerCase\<close>: the cased capitals below U+0100 are A-Z and
  U+00C0 .. U+00DE without the multiplication sign U+00D7; each maps to the code
  unit 32 above it. Bit 5 (value 32) is clear in all of them, so adding 32 is
  setting that bit.
\<close>

definition is_upper :: "char \<Rightarrow> bool" where
  "is_upper c = (let n = code c in
     (65 \<le> n \<and> n \<le> 90) \<or> (192 \<le> n \<and> n \<le> 222 \<and> n \<noteq> 215))"

fun plus32 :: "char \<Rightarrow> char" where
  "plus32 (Char b0 b1 b2 b3 b4 b5 b6 b7) = Char b0 b1 b2 b3 b4 True b6 b7"

definition toLowerCase :: "string \<Rightarrow> string" where
  "toLowerCase s = map (\<lambda>c. if is_upper c then plus32 c else c) s"

text \<open>
  The characters that \<open>replace(/[^a-z0-9\s-_]/g, '')\<close> keeps. In the class, \<open>\s\<close>
  cannot be the end of a range, so the \<open>-\<close> after it is a literal dash and the class is
  a-z, 0-9, white space, dash and underscore.
\<close>

definition name_char :: "char \<Rightarrow> bool" where
  "name_char c = (let n = code c in
     (97 \<le> n \<and> n \<le> 122) \<or> (48 \<le> n \<and> n \<le> 57) \<or> is_space c
       \<or> c = CHR ''-'' \<or> c = CHR ''_'')"

definition trim :: "string \<Rightarrow> string" where
  "trim s = rev (dropWhile is_space (rev (dropWhile is_space s)))"

text \<open>\<open>replace(/\s+/g, '-')\<close>: every maximal run of white space becomes one dash.\<close>

function collapse_ws :: "string \<Rightarrow> string" where
  "collapse_ws [] = []"
| "collapse_ws (c # cs) =
     (if is_space c then CHR ''-'' # collapse_ws (dropWhile is_space cs)
      else c # collapse_ws cs)"
  by pat_completeness auto
termination
  by (relation "measure length") (auto simp: less_Suc_eq_le length_dropWhile_le)

text \<open>
  \<open>normalizeForName(s)\<close>, the spec's \<open>slugify\<close>. The guard \<open>if (!s) return ''\<close> is the
  empty string for a string argument.
\<close>

definition normalizeForName :: "string \<Rightarrow> string" where
  "normalizeForName s =
     (if s = [] then []
      else collapse_ws (trim (filter name_char (toLowerCase s))))"

text \<open>The alphabet of a slug: a-z, 0-9, dash and underscore.\<close>

definition slug_char :: "char \<Rightarrow> bool" where
  "slug_char c = (let n = code c in
     (97 \<le> n \<and> n \<le> 122) \<or> (48 \<le> n \<and> n \<le> 57) \<or> c = CHR ''-'' \<or> c = CHR ''_'')"

text \<open>
  The alphabet the spec's sentence names: lowercase letters, digits and dashes.
\<close>

definition dashed_char :: "char \<Rightarrow> bool" where
  "dashed_char c = (let n = code c in
     (97 \<le> n \<and> n \<le> 122) \<or> (48 \<le> n \<and> n \<le> 57) \<or> c = CHR ''-'')"

subsection \<open>Numbers in template strings\<close>

definition digit_char :: "nat \<Rightarrow> char" where
  "digit_char d =
     (if d = 0 then CHR ''0'' else if d = 1 then CHR ''1'' else if d = 2 then CHR ''2''
      else if d = 3 then CHR ''3'' else if d = 4 then CHR ''4'' else if d = 5 then CHR ''5''
      else if d = 6 then CHR ''6'' else if d = 7 then CHR ''7'' else if d = 8 then CHR ''8''
      else CHR ''9'')"

text \<open>The decimal rendering of a natural number, as \<open>`${n}`\<close> gives it.\<close>

fun show_nat :: "nat \<Rightarrow> string" where
  "show_nat n = (if n < 10 then [digit_char n]
                 else show_nat (n div 10) @ [digit_char (n mod 10)])"

declare show_nat.simps [simp del]

lemma digit_char_inj: "a < 10 \<Longrightarrow> b < 10 \<Longrightarrow> digit_char a = digit_char b \<Longrightarrow> a = b"
  unfolding digit_char_def by (auto split: if_splits) arith

lemma show_nat_nonempty: "show_nat n \<noteq> []"
  by (subst show_nat.simps) simp

lemma show_nat_inj: "show_nat m = show_nat n \<Longrightarrow> m = n"
proof (induction m arbitrary: n rule: show_nat.induct)
  case (1 m)
  show ?case
  proof (cases "m < 10")
    case small: True
    show ?thesis
    proof (cases "n < 10")
      case True
      with small "1.prems" show ?thesis
        by (simp add: show_nat.simps [of m] show_nat.simps [of n] digit_char_inj)
    next
      case False
      with small "1.prems" show_nat_nonempty [of "n div 10"] show ?thesis
        by (simp add: show_nat.simps [of m] show_nat.simps [of n])
    qed
  next
    case big: False
    show ?thesis
    proof (cases "n < 10")
      case True
      with big "1.prems" show_nat_nonempty [of "m div 10"] show ?thesis
        by (simp add: show_nat.simps [of m] show_nat.simps [of n])
    next
      case False
      with big "1.prems" have eq: "show_nat (m div 10) = show_nat (n div 10)"
        and d: "digit_char (m mod 10) = digit_char (n mod 10)"
        by (simp_all add: show_nat.simps [of m] show_nat.simps [of n])
      from "1.IH" [OF big eq] have "m div 10 = n div 10" .
      moreover from d have "m mod 10 = n mod 10"
        by (intro digit_char_inj) simp_all
      ultimately show ?thesis
        by (metis div_mult_mod_eq)
    qed
  qed
qed

section \<open>Channel names\<close>

text \<open>
  The uniqueness loop of \<open>createTicketChannelFromChoice\<close>:
  \<^verbatim>\<open>
  let channelName = channelBase;
  let suffix = 1;
  while (guild.channels.cache.some(ch => ch.name === channelName)) {
    channelName = `${channelBase}-${suffix++}`;
  }
  \<close>
  \<open>names\<close> are the names of the channels in the cache. The counter is a natural
  number.
\<close>

function unique_loop :: "string list \<Rightarrow> string \<Rightarrow> string \<Rightarrow> nat \<Rightarrow> string" where
  "unique_loop names channelBase channelName suffix =
     (if channelName \<in> set names
      then unique_loop names channelBase (channelBase @ ''-'' @ show_nat suffix) (Suc suffix)
      else channelName)"
  by pat_completeness auto

lemma finite_taken_suffixes:
  "finite {j. k \<le> j \<and> base @ ''-'' @ show_nat j \<in> set names}"
proof -
  have "inj (\<lambda>j. base @ ''-'' @ show_nat j)"
    by (rule injI) (simp add: show_nat_inj)
  then have "finite ((\<lambda>j. base @ ''-'' @ show_nat j) -` set names)"
    by (intro finite_vimageI) simp_all
  then show ?thesis
    by (rule rev_finite_subset) auto
qed

definition taken_from :: "string list \<Rightarrow> string \<Rightarrow> nat \<Rightarrow> nat" where
  "taken_from names base k = card {j. k \<le> j \<and> base @ ''-'' @ show_nat j \<in> set names}"

lemma taken_from_step:
  "taken_from names base k =
     taken_from names base (Suc k) + (if base @ ''-'' @ show_nat k \<in> set names then 1 else 0)"
proof -
  let ?S = "\<lambda>k. {j. k \<le> j \<and> base @ ''-'' @ show_nat j \<in> set names}"
  show ?thesis
  proof (cases "base @ ''-'' @ show_nat k \<in> set names")
    case True
    then have "?S k = insert k (?S (Suc k))"
      by (auto simp: le_Suc_eq)
    moreover have "k \<notin> ?S (Suc k)" by simp
    ultimately show ?thesis
      using True finite_taken_suffixes [of "Suc k" base names]
      by (simp add: taken_from_def)
  next
    case False
    then have "?S k = ?S (Suc k)"
      by (auto simp: Suc_le_eq order_less_le)
    with False show ?thesis
      by (simp add: taken_from_def)
  qed
qed

termination unique_loop
proof (relation "measure (\<lambda>(names, base, name, suffix).
          taken_from names base suffix + (if name \<in> set names then 1 else 0))")
  show "wf (measure (\<lambda>(names, base, name, suffix).
          taken_from names base suffix + (if name \<in> set names then 1 else 0)))"
    by simp
next
  fix names :: "string list" and channelBase channelName :: string and suffix :: nat
  assume "channelName \<in> set names"
  then show "((names, channelBase, channelBase @ ''-'' @ show_nat suffix, Suc suffix),
              (names, channelBase, channelName, suffix))
             \<in> measure (\<lambda>(names, base, name, suffix).
                 taken_from names base suffix + (if name \<in> set names then 1 else 0))"
    using taken_from_step [of names channelBase suffix] by simp
qed

declare unique_loop.simps [simp del]

definition unique_name :: "string list \<Rightarrow> string \<Rightarrow> string" where
  "unique_name names channelBase = unique_loop names channelBase channelBase 1"

text \<open>
  The spec's sequence of candidates: \<open>base, base-1, base-2, ...\<close>, numbered from 0.
\<close>

definition candidate :: "string \<Rightarrow> nat \<Rightarrow> string" where
  "candidate base k = (if k = 0 then base else base @ ''-'' @ show_nat k)"

text \<open>
  The spec's \<open>slugify\<close>, in its words: lowercase, strip the characters outside the
  class, trim, collapse each run of white space to one dash.
\<close>

definition slugify :: "string \<Rightarrow> string" where
  "slugify text = collapse_ws (trim (filter name_char (toLowerCase text)))"

section \<open>Data model\<close>

text \<open>
  User, channel, guild and message ids are snowflakes: numbers that the platform
  hands out and JavaScript holds as non-empty decimal strings. They are natural
  numbers here, so that the truth value of an id in a condition is the presence of
  the id.
\<close>

type_synonym snowflake = nat

text \<open>A row of the table \<open>tickets\<close>; \<open>ticket_id\<close> is the column \<open>id\<close>.\<close>

record ticket =
  ticket_id :: nat
  guild_id :: snowflake
  channel_id :: snowflake
  owner_id :: snowflake
  claimed_by :: "snowflake option"
  status :: string
  category :: "string option"
  topic :: "string option"
  created_at :: nat

record user =
  u_id :: snowflake
  username :: string
  tag :: string

text \<open>
  A guild member: \<open>administrator\<close> is \<open>permissions.has(Administrator)\<close>,
  \<open>role_names\<close> the names of the roles in \<open>roles.cache\<close>.
\<close>

record member =
  m_id :: snowflake
  administrator :: bool
  role_names :: "string list"
  nickname :: "string option"

datatype channel_type = GuildText | GuildCategory

record channel =
  ch_id :: snowflake
  ch_name :: string
  ch_type :: channel_type
  ch_parent :: "snowflake option"

text \<open>
  A message as the transcript reads it: \<open>createdAt\<close> is the result of
  \<open>msg.createdAt.toISOString()\<close>, \<open>author_tag\<close> is \<open>msg.author?.tag\<close>,
  \<open>attachments\<close> the URLs of the attachments in the order of the collection.
\<close>

record message =
  msg_id :: snowflake
  createdAt :: string
  author_tag :: "string option"
  content :: string
  attachments :: "string list"

text \<open>The configuration read from the process environment, and \<open>__dirname\<close>.\<close>

record config =
  STAFF_ROLE_NAME :: string
  STAFF_LOG_CHANNEL_ID :: "snowflake option"
  dirname :: string

text \<open>
  The state the bot reads and writes: the table and its AUTOINCREMENT counter, the map
  \<open>pendingCategoryForUser\<close>, the channel cache of the guild (with the id the platform
  gives the next channel), and the files on disk.
\<close>

record world =
  guild :: snowflake
  tickets :: "ticket list"
  sqlite_sequence :: nat
  pendingCategoryForUser :: "snowflake \<rightharpoonup> string"
  channels :: "channel list"
  next_snowflake :: snowflake
  files :: "string \<rightharpoonup> string"

text \<open>
  The calls into the platform and the file system that can fail, and what the
  platform answers during one run of a handler: \<open>ok\<close> says which calls succeed,
  \<open>members\<close> is \<open>guild.members.fetch(id).catch(() => null)\<close>, \<open>fetch_channel\<close> is
  \<open>guild.channels.fetch(id).catch(() => null)\<close>, and \<open>history\<close> gives the messages of
  a channel, newest first, as the platform returns them.
\<close>

datatype call =
    CreateCategory | CreateChannel | ChannelSend | InteractionReply | ShowModalCall
  | DeferReplyCall | EditReplyCall
  | MessagesFetch | WriteFile | LogSendCall | DirectMessageCall | ChannelDelete

record env =
  now :: nat
  ok :: "call \<Rightarrow> bool"
  members :: "snowflake \<rightharpoonup> member"
  fetch_channel :: "snowflake \<rightharpoonup> channel"
  history :: "snowflake \<Rightarrow> message list"

datatype error = CategoryFailed | ChannelCreateFailed | SendFailed | FetchFailed | WriteFailed

text \<open>
  An embed is kept as the helper that built it (\<open>embedInfo\<close>, \<open>embedSuccess\<close>,
  \<open>embedError\<close>, \<open>embedAction\<close>) and its title; descriptions are left out. An
  embed that the code builds in place stands as the helper of its colour.
\<close>

datatype embed_kind = Info | Success | Error | Action

datatype embed = Embed embed_kind string

text \<open>The callback a close action hands to \<open>setTimeout\<close>, with the row it captured.\<close>

datatype timer = CloseButtonTimer ticket nat | CloseCommandTimer ticket

text \<open>
  What a handler does to the outside, in order. Each entry is an attempt. \<open>LogSend\<close>
  is a message to the staff log (with the attached file), \<open>DirectMessage\<close> a private
  message with a file, \<open>Delete\<close> the deletion of a channel; their last argument says
  whether the call succeeded.
\<close>

datatype effect =
    Reply embed
  | DeferReply
  | EditReply embed
  | FollowUp embed
  | ShowModal
  | Send snowflake embed
  | LogSend embed "string option" bool
  | DirectMessage snowflake embed string bool
  | Delete snowflake bool
  | SetTimeout nat timer
  | ConsoleError

datatype interaction =
    SelectMenu user string
  | ModalSubmit user string
  | Button string nat "member option" user
  | Command string "member option" user channel

section \<open>Helpers\<close>

text \<open>\<open>x || d\<close> on strings: \<open>null\<close>, \<open>undefined\<close> and the empty string give \<open>d\<close>.\<close>

definition or_else :: "string option \<Rightarrow> string \<Rightarrow> string" where
  "or_else x d = (case x of None \<Rightarrow> d | Some s \<Rightarrow> if s = [] then d else s)"

text \<open>\<open>x || null\<close>.\<close>

definition or_null :: "string option \<Rightarrow> string option" where
  "or_null x = (case x of None \<Rightarrow> None | Some s \<Rightarrow> if s = [] then None else Some s)"

definition isStaff :: "config \<Rightarrow> member option \<Rightarrow> bool" where
  "isStaff cfg member =
     (case member of
        None \<Rightarrow> False
      | Some m \<Rightarrow> if administrator m then True else STAFF_ROLE_NAME cfg \<in> set (role_names m))"

definition CATEGORIES :: "string list" where
  "CATEGORIES =
     [''Unban Aanvraag Anti Cheat'',
      ''Unban Aanvraag Discord'',
      ''Unban Aanvraag Ingame'',
      ''Klachten Over Spelers'',
      ''Klachten Over Staff'',
      ''Ingame Refunds'',
      ''Pc Checks'',
      ''Overige Vragen'',
      ''Content Creator Co'' @ [CHR 0xF6] @ ''rdinator'',
      ''Hulpdiensten Co'' @ [CHR 0xF6] @ ''rdinator'',
      ''Onderwereld Co'' @ [CHR 0xF6] @ ''rdinator'',
      ''Development'',
      ''Car Development'',
      ''Headstaff'',
      ''Bestuur'',
      ''Staff Sollicitatie'' @ [CHR 0x27] @ ''s'',
      ''Donaties'']"

text \<open>
  \<open>parseInt(s, 10)\<close>: leading white space, an optional sign, then the longest run of
  decimal digits; \<open>None\<close> is \<open>NaN\<close>.
\<close>

definition is_digit :: "char \<Rightarrow> bool" where
  "is_digit c = (48 \<le> code c \<and> code c \<le> 57)"

definition parseInt :: "string \<Rightarrow> int option" where
  "parseInt s =
     (let t = dropWhile is_space s;
          neg = (t \<noteq> [] \<and> hd t = CHR ''-'');
          u = (if t \<noteq> [] \<and> (hd t = CHR ''-'' \<or> hd t = CHR ''+'') then tl t else t);
          ds = takeWhile is_digit u
      in if ds = [] then None
         else let v = int (foldl (\<lambda>a c. 10 * a + (code c - 48)) 0 ds)
              in Some (if neg then - v else v))"

text \<open>
  \<open>CATEGORIES[categoryIndex]\<close>: \<open>undefined\<close> (here \<open>None\<close>) for \<open>NaN\<close> and for every
  index that is not one of 0 .. 16.
\<close>

definition category_at :: "int option \<Rightarrow> string option" where
  "category_at categoryIndex =
     (case categoryIndex of
        None \<Rightarrow> None
      | Some i \<Rightarrow> if 0 \<le> i \<and> i < int (length CATEGORIES) then Some (CATEGORIES ! nat i) else None)"

text \<open>
  An index outside the catalog of 17 categories: \<open>NaN\<close>, a negative number, or 17
  and above.
\<close>

definition out_of_range :: "int option \<Rightarrow> bool" where
  "out_of_range categoryIndex =
     (case categoryIndex of None \<Rightarrow> True | Some i \<Rightarrow> i < 0 \<or> 17 \<le> i)"

section \<open>Persistence\<close>

definition insertTicketRow ::
  "world \<Rightarrow> nat \<Rightarrow> snowflake \<Rightarrow> snowflake \<Rightarrow> snowflake \<Rightarrow> string \<Rightarrow> string option \<Rightarrow> world \<times> nat"
where
  "insertTicketRow w now' guildId channelId ownerId cat topic' =
     (let lastInsertRowid = Suc (sqlite_sequence w);
          row = \<lparr>ticket_id = lastInsertRowid, guild_id = guildId, channel_id = channelId,
                 owner_id = ownerId, claimed_by = None, status = ''open'',
                 category = Some cat, topic = or_null topic', created_at = now'\<rparr>
      in (w\<lparr>tickets := tickets w @ [row], sqlite_sequence := lastInsertRowid\<rparr>,
          lastInsertRowid))"

definition getTicketById :: "ticket list \<Rightarrow> nat \<Rightarrow> ticket option" where
  "getTicketById rows i = find (\<lambda>t. ticket_id t = i) rows"

definition getTicketByChannel :: "ticket list \<Rightarrow> snowflake \<Rightarrow> ticket option" where
  "getTicketByChannel rows channelId = find (\<lambda>t. channel_id t = channelId) rows"

definition updateTicketClaim :: "ticket list \<Rightarrow> nat \<Rightarrow> snowflake \<Rightarrow> ticket list" where
  "updateTicketClaim rows i userId =
     map (\<lambda>t. if ticket_id t = i then t\<lparr>claimed_by := Some userId\<rparr> else t) rows"

definition unclaimTicket :: "ticket list \<Rightarrow> nat \<Rightarrow> ticket list" where
  "unclaimTicket rows i =
     map (\<lambda>t. if ticket_id t = i then t\<lparr>claimed_by := None\<rparr> else t) rows"

definition closeTicketRow :: "ticket list \<Rightarrow> nat \<Rightarrow> ticket list" where
  "closeTicketRow rows i =
     map (\<lambda>t. if ticket_id t = i then t\<lparr>status := ''closed''\<rparr> else t) rows"

text \<open>
  \<open>guild.channels.cache.get(STAFF_LOG_CHANNEL_ID) ||
  await guild.channels.fetch(STAFF_LOG_CHANNEL_ID).catch(() => null)\<close>,
  under \<open>if (STAFF_LOG_CHANNEL_ID)\<close>.
\<close>

definition logChannel :: "config \<Rightarrow> env \<Rightarrow> world \<Rightarrow> channel option" where
  "logChannel cfg e w =
     (case STAFF_LOG_CHANNEL_ID cfg of
        None \<Rightarrow> None
      | Some i \<Rightarrow>
          (case find (\<lambda>c. ch_id c = i) (channels w) of
             Some c \<Rightarrow> Some c
           | None \<Rightarrow> fetch_channel e i))"

section \<open>Transcript\<close>

text \<open>
  \<open>channel.messages.fetch({ limit, before })\<close>: at most \<open>limit\<close> messages, newest
  first, all of them older than \<open>before\<close> when it is given; \<open>None\<close> when the call is
  rejected.
\<close>

definition older :: "env \<Rightarrow> channel \<Rightarrow> snowflake option \<Rightarrow> message list" where
  "older e channel before_id =
     (case before_id of
        None \<Rightarrow> history e (ch_id channel)
      | Some b \<Rightarrow> filter (\<lambda>m. msg_id m < b) (history e (ch_id channel)))"

definition fetch :: "env \<Rightarrow> channel \<Rightarrow> nat \<Rightarrow> snowflake option \<Rightarrow> message list option" where
  "fetch e channel limit before_id =
     (if ok e MessagesFetch then Some (take limit (older e channel before_id)) else None)"

text \<open>
  The paging loop of \<open>makeTranscript\<close>:
  \<^verbatim>\<open>
  while (true) {
      const options = { limit: 100 };
      if (lastId) options.before = lastId;
      const fetched = await channel.messages.fetch(options);
      if (fetched.size === 0) break;
      messages = messages.concat(Array.from(fetched.values()));
      lastId = fetched.last().id;
      if (fetched.size < 100) break;
  }
  \<close>
\<close>

function fetch_loop ::
  "env \<Rightarrow> channel \<Rightarrow> message list \<Rightarrow> snowflake option \<Rightarrow> message list option"
where
  "fetch_loop e channel messages lastId =
     (case fetch e channel 100 lastId of
        None \<Rightarrow> None
      | Some fetched \<Rightarrow>
          if length fetched = 0 then Some messages
          else if length fetched < 100 then Some (messages @ fetched)
          else fetch_loop e channel (messages @ fetched) (Some (msg_id (last fetched))))"
  by pat_completeness auto

lemma older_of_member:
  assumes "m \<in> set (older e channel before_id)"
  shows "older e channel (Some (msg_id m))
         = filter (\<lambda>x. msg_id x < msg_id m) (older e channel before_id)"
proof (cases before_id)
  case None
  then show ?thesis by (simp add: older_def)
next
  case (Some b)
  with assms have "msg_id m < b" by (simp add: older_def)
  then have both: "(\<lambda>x. msg_id x < b \<and> msg_id x < msg_id m) = (\<lambda>x. msg_id x < msg_id m)"
    by auto
  from Some show ?thesis by (simp add: older_def both)
qed

lemma older_shrinks:
  assumes "m \<in> set (older e channel before_id)"
  shows "length (older e channel (Some (msg_id m))) < length (older e channel before_id)"
proof -
  have "length (filter (\<lambda>x. msg_id x < msg_id m) (older e channel before_id))
        < length (older e channel before_id)"
    by (rule length_filter_less [OF assms]) simp
  with older_of_member [OF assms] show ?thesis by simp
qed

termination fetch_loop
proof (relation "measure (\<lambda>(e, channel, messages, lastId). length (older e channel lastId))")
  show "wf (measure (\<lambda>(e, channel, messages, lastId). length (older e channel lastId)))"
    by simp
next
  fix e :: env and channel :: channel and messages :: "message list"
    and lastId :: "snowflake option" and fetched :: "message list"
  assume got: "fetch e channel 100 lastId = Some fetched" and some: "length fetched \<noteq> 0"
  from got have "fetched = take 100 (older e channel lastId)"
    by (simp add: fetch_def split: if_splits)
  with some have "last fetched \<in> set (older e channel lastId)"
    by (metis in_set_takeD last_in_set length_0_conv)
  then show "((e, channel, messages @ fetched, Some (msg_id (last fetched))),
              (e, channel, messages, lastId))
             \<in> measure (\<lambda>(e, channel, messages, lastId). length (older e channel lastId))"
    by (simp add: older_shrinks)
qed

declare fetch_loop.simps [simp del]

text \<open>
  The paperclip U+1F4CE of the attachment line. It lies outside the characters of this
  model and stands here as the four bytes that the file, written as UTF-8, holds.
\<close>

definition paperclip :: string where
  "paperclip = [CHR 0xF0, CHR 0x9F, CHR 0x93, CHR 0x8E]"

definition newline :: string where
  "newline = [CHR 0x0A]"

text \<open>What the body of the \<open>for\<close> loop appends for one message.\<close>

definition render_message :: "message \<Rightarrow> string" where
  "render_message msg =
     (let time = createdAt msg;
          author = or_else (author_tag msg) ''Onbekend'';
          content' = or_else (Some (content msg)) []
      in ''['' @ time @ ''] '' @ author @ '': '' @ content' @ newline
         @ foldl (\<lambda>text url. text @ ''    '' @ paperclip @ '' Attachment: '' @ url @ newline)
             [] (attachments msg))"

text \<open>\<open>path.join\<close> of two plain segments.\<close>

definition path_join :: "string \<Rightarrow> string \<Rightarrow> string" where
  "path_join a b = a @ ''/'' @ b"

definition transcript_path :: "config \<Rightarrow> channel \<Rightarrow> string" where
  "transcript_path cfg channel =
     path_join (path_join (dirname cfg) ''transcripts'')
       (show_nat (ch_id channel) @ ''-transcript.txt'')"

text \<open>
  \<open>makeTranscript(channel)\<close>: the path of the file and the files after the write, or
  the error that a rejected fetch or a failed write throws.
\<close>

definition makeTranscript ::
  "config \<Rightarrow> env \<Rightarrow> (string \<rightharpoonup> string) \<Rightarrow> channel \<Rightarrow> error + string \<times> (string \<rightharpoonup> string)"
where
  "makeTranscript cfg e fs channel =
     (case fetch_loop e channel [] None of
        None \<Rightarrow> Inl FetchFailed
      | Some fetched \<Rightarrow>
          let messages = rev fetched;
              header = ''Transcript van #'' @ ch_name channel @ newline @ newline;
              transcriptText = foldl (\<lambda>text msg. text @ render_message msg) header messages;
              filePath = transcript_path cfg channel
          in if ok e WriteFile then Inr (filePath, fs(filePath \<mapsto> transcriptText))
             else Inl WriteFailed)"

text \<open>
  The order in which the platform keeps a history: newest first, ids strictly
  decreasing.
\<close>

definition newest_first :: "message list \<Rightarrow> bool" where
  "newest_first ms = sorted_wrt (\<lambda>a b. msg_id b < msg_id a) ms"

text \<open>
  The text of a transcript, stated apart from the loop: after the header, for each
  message in chronological order its entry \<open>[ISO-timestamp] author: content\<close> closed
  by a line feed, followed by one indented line per attachment. The content stands in
  the entry as it is, so an entry is a single line only when its content holds no line
  feed.
\<close>

definition message_entry :: "message \<Rightarrow> string" where
  "message_entry msg =
     ''['' @ createdAt msg @ ''] '' @ or_else (author_tag msg) ''Onbekend'' @ '': ''
       @ content msg @ newline"

definition attachment_line :: "string \<Rightarrow> string" where
  "attachment_line url = ''    '' @ paperclip @ '' Attachment: '' @ url @ newline"

definition transcript_text :: "channel \<Rightarrow> message list \<Rightarrow> string" where
  "transcript_text channel chronological =
     ''Transcript van #'' @ ch_name channel @ newline @ newline
       @ concat (map (\<lambda>msg. message_entry msg @ concat (map attachment_line (attachments msg)))
                   chronological)"

text \<open>
  The number of lines that a piece of the transcript takes: every line of the file ends
  with a line feed, so this is the number of line feeds.
\<close>

definition line_feeds :: "string \<Rightarrow> nat" where
  "line_feeds s = length (filter (\<lambda>c. c = CHR 0x0A) s)"

section \<open>Ticket creation\<close>

definition getOrCreateCategoryByName :: "env \<Rightarrow> world \<Rightarrow> string \<Rightarrow> world \<times> channel option" where
  "getOrCreateCategoryByName e w name =
     (case find (\<lambda>c. ch_type c = GuildCategory \<and> ch_name c = name) (channels w) of
        Some category' \<Rightarrow> (w, Some category')
      | None \<Rightarrow>
          if ok e CreateCategory
          then let category' = \<lparr>ch_id = next_snowflake w, ch_name = name,
                                ch_type = GuildCategory, ch_parent = None\<rparr>
               in (w\<lparr>channels := channels w @ [category'],
                     next_snowflake := Suc (next_snowflake w)\<rparr>, Some category')
          else (w, None))"

text \<open>
  The name of the ticket channel before the uniqueness loop: category, user name,
  and the nickname when the member has one that differs.
\<close>

definition channel_base :: "env \<Rightarrow> user \<Rightarrow> string \<Rightarrow> string" where
  "channel_base e usr categoryName =
     (let username' = normalizeForName (or_else (Some (username usr)) (or_else (Some (tag usr)) ''user''));
          nickname' = (case members e (u_id usr) of
                         None \<Rightarrow> []
                       | Some member \<Rightarrow> normalizeForName (or_else (nickname member) []))
      in normalizeForName categoryName @ ''-'' @ username'
         @ (if nickname' \<noteq> [] \<and> nickname' \<noteq> username' then ''-'' @ nickname' else []))"

text \<open>
  \<open>createTicketChannelFromChoice(guild, user, categoryIndex, topic)\<close>. The result is
  the state afterwards, the messages sent, and either the thrown error or the created
  channel with the id of the new row. Permission overwrites are not part of the model.
\<close>

definition createTicketChannelFromChoice ::
  "config \<Rightarrow> env \<Rightarrow> world \<Rightarrow> user \<Rightarrow> int option \<Rightarrow> string option
     \<Rightarrow> world \<times> effect list \<times> (error + channel \<times> nat)"
where
  "createTicketChannelFromChoice cfg e w usr categoryIndex topic' =
     (let categoryName = or_else (category_at categoryIndex) ''Overige Vragen'' in
      case getOrCreateCategoryByName e w categoryName of
        (w1, None) \<Rightarrow> (w1, [ConsoleError], Inl CategoryFailed)
      | (w1, Some parent) \<Rightarrow>
          let channelBase = channel_base e usr categoryName;
              channelName = unique_name (map ch_name (channels w1)) channelBase
          in if \<not> ok e CreateChannel then (w1, [], Inl ChannelCreateFailed)
             else
               let created = \<lparr>ch_id = next_snowflake w1, ch_name = channelName,
                              ch_type = GuildText, ch_parent = Some (ch_id parent)\<rparr>;
                   w2 = w1\<lparr>channels := channels w1 @ [created],
                          next_snowflake := Suc (next_snowflake w1)\<rparr>;
                   inserted = insertTicketRow w2 (now e) (guild w2) (ch_id created) (u_id usr)
                                categoryName (or_null topic');
                   w3 = fst inserted;
                   ticketId = snd inserted;
                   intro = Send (ch_id created) (Embed Info ''Nieuw ticket'')
               in if \<not> ok e ChannelSend then (w3, [intro], Inl SendFailed)
                  else (w3,
                        intro # (case logChannel cfg e w3 of
                                   Some logCh \<Rightarrow> [LogSend (Embed Info ''Nieuw ticket geopend'') None
                                                   (ok e LogSendCall)]
                                 | None \<Rightarrow> []),
                        Inr (created, ticketId)))"

section \<open>Interaction handling\<close>

text \<open>\<open>guild.channels.cache.get(ticketRow.channel_id)\<close>.\<close>

definition ticket_channel :: "world \<Rightarrow> ticket \<Rightarrow> channel option" where
  "ticket_channel w ticketRow = find (\<lambda>c. ch_id c = channel_id ticketRow) (channels w)"

text \<open>\<open>if (channelObj) await channelObj.send({ embeds: [embed] }).catch(() => {})\<close>.\<close>

definition notice :: "channel option \<Rightarrow> embed \<Rightarrow> effect list" where
  "notice channelObj embed' = (case channelObj of None \<Rightarrow> [] | Some c \<Rightarrow> [Send (ch_id c) embed'])"

text \<open>
  The outer \<open>catch\<close> of the handler: it logs, and replies with a generic error when no
  reply has been sent.
\<close>

definition caught :: "effect list" where
  "caught = [ConsoleError, Reply (Embed Error ''Error'')]"

subsection \<open>Category selection and topic submission\<close>

definition on_select :: "env \<Rightarrow> world \<Rightarrow> user \<Rightarrow> string \<Rightarrow> world \<times> effect list" where
  "on_select e w usr chosen =
     (let w1 = w\<lparr>pendingCategoryForUser := (pendingCategoryForUser w)(u_id usr \<mapsto> chosen)\<rparr>
      in if ok e ShowModalCall then (w1, [ShowModal]) else (w1, ShowModal # caught))"

text \<open>
  The topic submission. The pending choice is read and deleted first. Without a choice
  the handler answers with one error reply. Otherwise it awaits
  \<open>interaction.deferReply\<close>: when that call is rejected, the outer \<open>catch\<close> takes over
  and ticket creation is never reached. After the deferral, creation runs inside the
  inner \<open>try\<close>; its \<open>catch\<close> logs and edits the reply to an error, and it also
  receives a rejected \<open>editReply\<close> of the success message. A rejected \<open>editReply\<close>
  inside that \<open>catch\<close> reaches the outer \<open>catch\<close>. One answer of the platform,
  \<open>ok e EditReplyCall\<close>, stands for both edits.
\<close>

definition on_modal_submit ::
  "config \<Rightarrow> env \<Rightarrow> world \<Rightarrow> user \<Rightarrow> string \<Rightarrow> world \<times> effect list"
where
  "on_modal_submit cfg e w usr topic_input =
     (let userId = u_id usr;
          chosen = pendingCategoryForUser w userId;
          w1 = w\<lparr>pendingCategoryForUser := (pendingCategoryForUser w)(userId := None)\<rparr>
      in case or_null chosen of
           None \<Rightarrow> (w1, [Reply (Embed Error ''Fout'')])
         | Some chosen' \<Rightarrow>
             if \<not> ok e DeferReplyCall then (w1, DeferReply # caught)
             else
               let topic' = or_null (Some topic_input);
                   categoryIndex = parseInt chosen';
                   failed = ConsoleError # EditReply (Embed Error ''Fout bij aanmaken'')
                              # (if ok e EditReplyCall then [] else caught)
               in (case createTicketChannelFromChoice cfg e w1 usr categoryIndex topic' of
                     (w2, sent, Inr opened) \<Rightarrow>
                       (w2, DeferReply # sent
                              @ EditReply (Embed Success ''Je ticket is geopend'')
                              # (if ok e EditReplyCall then [] else failed))
                   | (w2, sent, Inl err) \<Rightarrow> (w2, DeferReply # sent @ failed)))"

subsection \<open>Claim and unclaim\<close>

text \<open>
  In the branches below, \<open>member.id\<close> of an absent member would throw; \<open>isStaff\<close> has
  rejected an absent member before.
\<close>

definition claim_button ::
  "config \<Rightarrow> world \<Rightarrow> nat \<Rightarrow> ticket \<Rightarrow> member option \<Rightarrow> world \<times> effect list"
where
  "claim_button cfg w ticketId ticketRow member =
     (if \<not> isStaff cfg member then (w, [Reply (Embed Error ''Geen permissie'')])
      else if claimed_by ticketRow \<noteq> None then (w, [Reply (Embed Error ''Al geclaimd'')])
      else case member of
             None \<Rightarrow> (w, caught)
           | Some m \<Rightarrow>
               (w\<lparr>tickets := updateTicketClaim (tickets w) ticketId (m_id m)\<rparr>,
                notice (ticket_channel w ticketRow) (Embed Success ''Ticket geclaimd'')
                  @ [Reply (Embed Success ''Ticket geclaimd'')]))"

definition unclaim_button ::
  "config \<Rightarrow> world \<Rightarrow> nat \<Rightarrow> ticket \<Rightarrow> member option \<Rightarrow> world \<times> effect list"
where
  "unclaim_button cfg w ticketId ticketRow member =
     (if \<not> isStaff cfg member then (w, [Reply (Embed Error ''Geen permissie'')])
      else if claimed_by ticketRow = None then (w, [Reply (Embed Error ''Niet geclaimd'')])
      else case member of
             None \<Rightarrow> (w, caught)
           | Some m \<Rightarrow>
               (w\<lparr>tickets := unclaimTicket (tickets w) ticketId\<rparr>,
                notice (ticket_channel w ticketRow) (Embed Action ''Ticket geunclaimd'')
                  @ [Reply (Embed Action ''Ticket geunclaimd'')]))"

text \<open>
  The slash commands send the notice with a plain \<open>await channel.send(...)\<close>: when it
  is rejected, the update has been made and the outer \<open>catch\<close> replies.
\<close>

definition claim_command ::
  "env \<Rightarrow> world \<Rightarrow> ticket \<Rightarrow> member option \<Rightarrow> channel \<Rightarrow> world \<times> effect list"
where
  "claim_command e w ticketRow member channel =
     (if claimed_by ticketRow \<noteq> None then (w, [Reply (Embed Error ''Al geclaimd'')])
      else case member of
             None \<Rightarrow> (w, caught)
           | Some m \<Rightarrow>
               let w1 = w\<lparr>tickets := updateTicketClaim (tickets w) (ticket_id ticketRow) (m_id m)\<rparr>;
                   said = Send (ch_id channel) (Embed Success ''Ticket geclaimd'')
               in if ok e ChannelSend then (w1, [said, Reply (Embed Success ''Geclaimd'')])
                  else (w1, said # caught))"

definition unclaim_command ::
  "env \<Rightarrow> world \<Rightarrow> ticket \<Rightarrow> member option \<Rightarrow> channel \<Rightarrow> world \<times> effect list"
where
  "unclaim_command e w ticketRow member channel =
     (if claimed_by ticketRow = None then (w, [Reply (Embed Error ''Niet geclaimd'')])
      else let w1 = w\<lparr>tickets := unclaimTicket (tickets w) (ticket_id ticketRow)\<rparr>
           in case member of
                None \<Rightarrow> (w1, caught)
              | Some m \<Rightarrow>
                  let said = Send (ch_id channel) (Embed Action ''Ticket geunclaimd'')
                  in if ok e ChannelSend then (w1, [said, Reply (Embed Success ''Geunclaimd'')])
                     else (w1, said # caught))"

subsection \<open>Close\<close>

definition close_button ::
  "config \<Rightarrow> env \<Rightarrow> world \<Rightarrow> nat \<Rightarrow> ticket \<Rightarrow> member option \<Rightarrow> world \<times> effect list"
where
  "close_button cfg e w ticketId ticketRow member =
     (if \<not> isStaff cfg member then (w, [Reply (Embed Error ''Geen permissie'')])
      else
        let w1 = w\<lparr>tickets := closeTicketRow (tickets w) ticketId\<rparr>;
            said = notice (ticket_channel w ticketRow) (Embed Action ''Ticket sluiten'')
                     @ [Reply (Embed Success ''Sluiten gestart'')]
        in if ok e InteractionReply
           then (w1, said @ [SetTimeout 5000 (CloseButtonTimer ticketRow ticketId)])
           else (w1, said @ caught))"

definition close_command :: "env \<Rightarrow> world \<Rightarrow> ticket \<Rightarrow> channel \<Rightarrow> world \<times> effect list" where
  "close_command e w ticketRow channel =
     (let w1 = w\<lparr>tickets := closeTicketRow (tickets w) (ticket_id ticketRow)\<rparr>;
          started = Reply (Embed Action ''Sluiten gestart'')
      in if ok e InteractionReply
         then (w1, [started, Send (ch_id channel) (Embed Action ''Ticket sluiten''),
                    SetTimeout 5000 (CloseCommandTimer ticketRow)])
         else (w1, started # caught))"

text \<open>
  The archive delivery of a close: \<open>logCh.send(...).catch(() => {})\<close> under
  \<open>if (STAFF_LOG_CHANNEL_ID)\<close> and \<open>if (logCh)\<close>.
\<close>

definition archive :: "config \<Rightarrow> env \<Rightarrow> world \<Rightarrow> embed \<Rightarrow> string \<Rightarrow> effect list" where
  "archive cfg e w embed' filepath =
     (case logChannel cfg e w of
        Some logCh \<Rightarrow> [LogSend embed' (Some filepath) (ok e LogSendCall)]
      | None \<Rightarrow> [])"

text \<open>The private message to the owner: \<open>owner.send(...).catch(() => {})\<close>.\<close>

definition mail_owner :: "env \<Rightarrow> ticket \<Rightarrow> embed \<Rightarrow> string \<Rightarrow> effect list" where
  "mail_owner e ticketRow embed' filepath =
     (case members e (owner_id ticketRow) of
        Some owner \<Rightarrow> [DirectMessage (m_id owner) embed' filepath (ok e DirectMessageCall)]
      | None \<Rightarrow> [])"

definition remove_channel :: "world \<Rightarrow> channel \<Rightarrow> world" where
  "remove_channel w ch = w\<lparr>channels := filter (\<lambda>c. ch_id c \<noteq> ch_id ch) (channels w)\<rparr>"

text \<open>
  The callback of the close button, five seconds later:
  \<^verbatim>\<open>
  try {
    const ch = guild.channels.cache.get(ticketRow.channel_id);
    if (!ch) return;
    const filepath = await makeTranscript(ch, ticketRow);
    ... logCh.send(...).catch(() => {}) ...
    ... owner.send(...).catch(() => {}) ...
    await ch.delete('Ticket closed by staff (with transcript)').catch(() => {});
  } catch (err) {
    console.error('Error during close timeout flow:', err);
    ... logCh.send({ embeds: [embedError('Fout bij sluiten', ...)] }).catch(() => {}) ...
  }
  \<close>
\<close>

definition close_button_timeout ::
  "config \<Rightarrow> env \<Rightarrow> world \<Rightarrow> ticket \<Rightarrow> nat \<Rightarrow> world \<times> effect list"
where
  "close_button_timeout cfg e w ticketRow ticketId =
     (case ticket_channel w ticketRow of
        None \<Rightarrow> (w, [])
      | Some ch \<Rightarrow>
          (case makeTranscript cfg e (files w) ch of
             Inl err \<Rightarrow>
               (w, ConsoleError #
                   (case logChannel cfg e w of
                      Some logCh \<Rightarrow> [LogSend (Embed Error ''Fout bij sluiten'') None (ok e LogSendCall)]
                    | None \<Rightarrow> []))
           | Inr (filepath, fs') \<Rightarrow>
               let w1 = w\<lparr>files := fs'\<rparr>;
                   sent = archive cfg e w1 (Embed Info ''Transcript Ticket'') filepath
                            @ mail_owner e ticketRow (Embed Info ''Transcript van je ticket'') filepath
                            @ [Delete (ch_id ch) (ok e ChannelDelete)]
               in if ok e ChannelDelete then (remove_channel w1 ch, sent) else (w1, sent)))"

text \<open>
  The callback of the close command. Here \<open>await ch.delete(...)\<close> has no \<open>catch\<close> of
  its own; the enclosing \<open>catch\<close> logs its failure.
\<close>

definition close_command_timeout :: "config \<Rightarrow> env \<Rightarrow> world \<Rightarrow> ticket \<Rightarrow> world \<times> effect list" where
  "close_command_timeout cfg e w ticketRow =
     (case ticket_channel w ticketRow of
        None \<Rightarrow> (w, [])
      | Some ch \<Rightarrow>
          (case makeTranscript cfg e (files w) ch of
             Inl err \<Rightarrow> (w, [ConsoleError])
           | Inr (filepath, fs') \<Rightarrow>
               let w1 = w\<lparr>files := fs'\<rparr>;
                   sent = archive cfg e w1 (Embed Info ''Transcript'') filepath
                            @ mail_owner e ticketRow (Embed Info ''Transcript'') filepath
                            @ [Delete (ch_id ch) (ok e ChannelDelete)]
               in if ok e ChannelDelete then (remove_channel w1 ch, sent)
                  else (w1, sent @ [ConsoleError])))"

fun run_timer :: "config \<Rightarrow> env \<Rightarrow> world \<Rightarrow> timer \<Rightarrow> world \<times> effect list" where
  "run_timer cfg e w (CloseButtonTimer ticketRow ticketId) =
     close_button_timeout cfg e w ticketRow ticketId"
| "run_timer cfg e w (CloseCommandTimer ticketRow) = close_command_timeout cfg e w ticketRow"

subsection \<open>Manual transcript\<close>

text \<open>
  Delivery of a manual transcript: to the staff log when one is configured, to the
  invoker by private message otherwise (with a follow-up when that message fails).
\<close>

definition deliver_manual :: "config \<Rightarrow> env \<Rightarrow> world \<Rightarrow> user \<Rightarrow> string \<Rightarrow> effect list" where
  "deliver_manual cfg e w usr filepath =
     (case STAFF_LOG_CHANNEL_ID cfg of
        Some i \<Rightarrow> archive cfg e w (Embed Info ''Transcript'') filepath
      | None \<Rightarrow>
          DirectMessage (u_id usr) (Embed Info ''Transcript'') filepath (ok e DirectMessageCall)
            # (if ok e DirectMessageCall then [] else [FollowUp (Embed Error ''DM mislukt'')]))"

text \<open>
  The body that the transcript button and the transcript command share: the reply,
  then \<open>makeTranscript\<close> and the delivery inside \<open>try\<close>, with a follow-up from
  \<open>catch\<close>.
\<close>

definition manual_transcript ::
  "config \<Rightarrow> env \<Rightarrow> world \<Rightarrow> user \<Rightarrow> channel \<Rightarrow> world \<times> effect list"
where
  "manual_transcript cfg e w usr ch =
     (let started = Reply (Embed Info ''Transcript'')
      in if \<not> ok e InteractionReply then (w, started # caught)
         else case makeTranscript cfg e (files w) ch of
                Inl err \<Rightarrow> (w, [started, ConsoleError, FollowUp (Embed Error ''Fout'')])
              | Inr (filepath, fs') \<Rightarrow>
                  (w\<lparr>files := fs'\<rparr>, started # deliver_manual cfg e (w\<lparr>files := fs'\<rparr>) usr filepath))"

definition transcript_button ::
  "config \<Rightarrow> env \<Rightarrow> world \<Rightarrow> ticket \<Rightarrow> member option \<Rightarrow> user \<Rightarrow> world \<times> effect list"
where
  "transcript_button cfg e w ticketRow member usr =
     (if \<not> isStaff cfg member then (w, [Reply (Embed Error ''Geen permissie'')])
      else case ticket_channel w ticketRow of
             None \<Rightarrow> (w, [Reply (Embed Error ''Kanaal niet gevonden'')])
           | Some ch \<Rightarrow> manual_transcript cfg e w usr ch)"

subsection \<open>Dispatch\<close>

text \<open>
  A button carries the two parts of its custom id, \<open>action_ticketId\<close> as
  \<open>buildTicketControlRow\<close> wrote it: the action and the number of the ticket.
\<close>

definition on_button ::
  "config \<Rightarrow> env \<Rightarrow> world \<Rightarrow> string \<Rightarrow> nat \<Rightarrow> member option \<Rightarrow> user \<Rightarrow> world \<times> effect list"
where
  "on_button cfg e w action ticketId member usr =
     (case getTicketById (tickets w) ticketId of
        None \<Rightarrow> (w, [Reply (Embed Error ''Niet gevonden'')])
      | Some ticketRow \<Rightarrow>
          if action = ''claim'' then claim_button cfg w ticketId ticketRow member
          else if action = ''unclaim'' then unclaim_button cfg w ticketId ticketRow member
          else if action = ''close'' then close_button cfg e w ticketId ticketRow member
          else if action = ''transcript'' then transcript_button cfg e w ticketRow member usr
          else (w, []))"

text \<open>
  The four ticket commands; \<open>channel\<close> is the channel option or, without one, the
  channel of the interaction. The other commands (panel, rename, add, remove) neither
  write the table nor delete a channel and are not modelled.
\<close>

definition on_command ::
  "config \<Rightarrow> env \<Rightarrow> world \<Rightarrow> string \<Rightarrow> member option \<Rightarrow> user \<Rightarrow> channel \<Rightarrow> world \<times> effect list"
where
  "on_command cfg e w name member usr channel =
     (if name \<in> set [''claim'', ''unclaim'', ''close'', ''transcript''] then
        case getTicketByChannel (tickets w) (ch_id channel) of
          None \<Rightarrow> (w, [Reply (Embed Error ''Geen ticket'')])
        | Some ticketRow \<Rightarrow>
            if \<not> isStaff cfg member then (w, [Reply (Embed Error ''Geen permissie'')])
            else if name = ''claim'' then claim_command e w ticketRow member channel
            else if name = ''unclaim'' then unclaim_command e w ticketRow member channel
            else if name = ''close'' then close_command e w ticketRow channel
            else manual_transcript cfg e w usr channel
      else (w, []))"

fun interactionCreate :: "config \<Rightarrow> env \<Rightarrow> world \<Rightarrow> interaction \<Rightarrow> world \<times> effect list" where
  "interactionCreate cfg e w (SelectMenu usr chosen) = on_select e w usr chosen"
| "interactionCreate cfg e w (ModalSubmit usr topic_input) = on_modal_submit cfg e w usr topic_input"
| "interactionCreate cfg e w (Button action ticketId member usr) =
     on_button cfg e w action ticketId member usr"
| "interactionCreate cfg e w (Command name member usr channel) =
     on_command cfg e w name member usr channel"

section \<open>An example state\<close>

text \<open>
  One open ticket of a user in its channel, with three messages; a staff log channel;
  a staff member and a plain member. The closed theorems below evaluate the handlers
  on it.
\<close>

definition example_config :: config where
  "example_config =
     \<lparr>STAFF_ROLE_NAME = ''Staff'', STAFF_LOG_CHANNEL_ID = Some 900, dirname = ''/srv/bot''\<rparr>"

definition example_staff :: member where
  "example_staff =
     \<lparr>m_id = 42, administrator = False, role_names = [''Staff''], nickname = None\<rparr>"

definition example_guest :: member where
  "example_guest =
     \<lparr>m_id = 7, administrator = False, role_names = [''Member''], nickname = Some ''Neo''\<rparr>"

definition example_user :: user where
  "example_user = \<lparr>u_id = 7, username = ''Alice'', tag = ''alice''\<rparr>"

definition example_row :: ticket where
  "example_row = \<lparr>ticket_id = 1, guild_id = 100, channel_id = 500, owner_id = 7,
     claimed_by = None, status = ''open'', category = Some ''Pc Checks'', topic = None,
     created_at = 1000\<rparr>"

definition example_channel :: channel where
  "example_channel = \<lparr>ch_id = 500, ch_name = ''pc-checks-alice'', ch_type = GuildText,
     ch_parent = Some 400\<rparr>"

definition example_log_channel :: channel where
  "example_log_channel = \<lparr>ch_id = 900, ch_name = ''staff-log'', ch_type = GuildText,
     ch_parent = None\<rparr>"

definition example_messages :: "message list" where
  "example_messages =
     [\<lparr>msg_id = 30, createdAt = ''2024-01-01T10:02:00.000Z'', author_tag = Some ''staff#1'',
        content = ''done'', attachments = []\<rparr>,
      \<lparr>msg_id = 20, createdAt = ''2024-01-01T10:01:00.000Z'', author_tag = None,
        content = [], attachments = [''https://cdn/a.png'', ''https://cdn/b.png'']\<rparr>,
      \<lparr>msg_id = 10, createdAt = ''2024-01-01T10:00:00.000Z'', author_tag = Some ''alice'',
        content = ''hi'', attachments = []\<rparr>]"

definition example_world :: world where
  "example_world = \<lparr>guild = 100, tickets = [example_row], sqlite_sequence = 1,
     pendingCategoryForUser = Map.empty, channels = [example_channel, example_log_channel],
     next_snowflake = 901, files = Map.empty\<rparr>"

definition example_env :: env where
  "example_env = \<lparr>now = 2000, ok = (\<lambda>c. True), members = [7 \<mapsto> example_guest],
     fetch_channel = Map.empty,
     history = (\<lambda>c. if c = 500 then example_messages else [])\<rparr>"

text \<open>The same platform with every fetch of messages rejected.\<close>

definition example_env_no_fetch :: env where
  "example_env_no_fetch = example_env\<lparr>ok := (\<lambda>c. c \<noteq> MessagesFetch)\<rparr>"

text \<open>The same platform with both deliveries and the deletion rejected.\<close>

definition example_env_no_delivery :: env where
  "example_env_no_delivery =
     example_env\<lparr>ok := (\<lambda>c. c \<noteq> LogSendCall \<and> c \<noteq> DirectMessageCall \<and> c \<noteq> ChannelDelete)\<rparr>"

definition example_claimed_world :: world where
  "example_claimed_world = example_world\<lparr>tickets := [example_row\<lparr>claimed_by := Some 42\<rparr>]\<rparr>"

definition example_closed_row :: ticket where
  "example_closed_row = example_row\<lparr>status := ''closed''\<rparr>"

definition example_closed_world :: world where
  "example_closed_world = example_world\<lparr>tickets := [example_closed_row]\<rparr>"

text \<open>A channel history of 250 messages with the ids 250 down to 1.\<close>

definition example_long_history :: "message list" where
  "example_long_history =
     map (\<lambda>i. \<lparr>msg_id = i, createdAt = show_nat i, author_tag = Some ''alice'',
                content = ''hi'', attachments = []\<rparr>) (rev [1..<251])"

definition example_long_env :: env where
  "example_long_env = example_env\<lparr>history := (\<lambda>c. example_long_history)\<rparr>"

text \<open>A history of one message whose content spans two lines.\<close>

definition example_multiline_message :: message where
  "example_multiline_message =
     \<lparr>msg_id = 10, createdAt = ''2024-01-01T10:00:00.000Z'', author_tag = Some ''alice'',
       content = ''first'' @ [CHR 0x0A] @ ''second'', attachments = []\<rparr>"

definition example_multiline_env :: env where
  "example_multiline_env = example_env\<lparr>history := (\<lambda>c. [example_multiline_message])\<rparr>"

text \<open>
  The same guild without the staff log channel: the configured id names a channel that
  is neither in the cache nor fetched.
\<close>

definition example_world_no_log :: world where
  "example_world_no_log = example_world\<lparr>channels := [example_channel]\<rparr>"

text \<open>The same platform with the deferral of the reply rejected.\<close>

definition example_env_no_defer :: env where
  "example_env_no_defer = example_env\<lparr>ok := (\<lambda>c. c \<noteq> DeferReplyCall)\<rparr>"

text \<open>The state after the user has chosen, with a value that is no number.\<close>

definition example_pending_world :: world where
  "example_pending_world = example_world\<lparr>pendingCategoryForUser := [7 \<mapsto> ''abc'']\<rparr>"

section \<open>Properties of the naming helpers\<close>

lemma collapse_ws_chars:
  "list_all name_char s \<Longrightarrow> list_all slug_char (collapse_ws s)"
proof (induction s rule: collapse_ws.induct)
  case 1
  show ?case by simp
next
  case (2 c cs)
  have rest: "list_all name_char (dropWhile is_space cs)"
    using "2.prems" by (auto simp: list_all_iff dest: set_dropWhileD)
  show ?case
  proof (cases "is_space c")
    case True
    with "2.IH"(1) rest show ?thesis by (simp add: slug_char_def)
  next
    case False
    with "2.IH"(2) "2.prems" show ?thesis
      by (auto simp: slug_char_def name_char_def Let_def)
  qed
qed

lemma trim_chars: "list_all P s \<Longrightarrow> list_all P (trim s)"
  by (auto simp: trim_def list_all_iff dest!: set_dropWhileD)

lemmas string_eval =
  normalizeForName_def toLowerCase_def is_upper_def code_def name_char_def is_space_def
  trim_def

lemmas name_eval =
  unique_name_def unique_loop.simps show_nat.simps digit_char_def

text \<open>
  C7, as the code has it. \<open>normalizeForName\<close> is the pipeline lowercase, strip
  (white space, dash and underscore are kept beside a-z and 0-9), trim, collapse white
  space to dashes; its result holds only lowercase letters a-z, digits, dashes and
  underscores; and the empty string gives the empty string.
\<close>

theorem normalizeForName_slug:
  "normalizeForName s = slugify s
   \<and> list_all slug_char (normalizeForName s)
   \<and> normalizeForName [] = []"
proof -
  have "list_all name_char (filter name_char (toLowerCase s))"
    by (simp add: list_all_iff)
  then have "list_all name_char (trim (filter name_char (toLowerCase s)))"
    by (rule trim_chars)
  then have "list_all slug_char (slugify s)"
    unfolding slugify_def by (rule collapse_ws_chars)
  moreover have "normalizeForName s = slugify s"
    by (simp add: normalizeForName_def slugify_def toLowerCase_def trim_def)
  ultimately show ?thesis
    by (simp add: normalizeForName_def)
qed

text \<open>
  C7 as stated allows only lowercase letters, digits and dashes in the result. An
  underscore of the input is kept as an underscore: \<open>normalizeForName("a_b")\<close> is
  \<open>"a_b"\<close>.
\<close>

theorem normalizeForName_keeps_underscore:
  "normalizeForName ''a_b'' = ''a_b'' \<and> \<not> list_all dashed_char (normalizeForName ''a_b'')"
  by (simp add: string_eval dashed_char_def)

lemma unique_loop_first:
  "(\<forall>j<k. candidate base j \<in> set names) \<Longrightarrow>
   \<exists>m. unique_loop names base (candidate base k) (Suc k) = candidate base m
       \<and> candidate base m \<notin> set names \<and> (\<forall>j<m. candidate base j \<in> set names)"
proof (induction names base "candidate base k" "Suc k" arbitrary: k rule: unique_loop.induct)
  case (1 names base)
  show ?case
  proof (cases "candidate base k \<in> set names")
    case True
    have next_name: "base @ ''-'' @ show_nat (Suc k) = candidate base (Suc k)"
      by (simp add: candidate_def)
    have "\<forall>j<Suc k. candidate base j \<in> set names"
      using True "1.prems" by (simp add: less_Suc_eq)
    from "1.hyps" [OF True next_name this] True next_name show ?thesis
      by (simp add: unique_loop.simps [of names base "candidate base k"])
  next
    case False
    with "1.prems" show ?thesis
      by (auto simp: unique_loop.simps [of names base "candidate base k"])
  qed
qed

text \<open>
  C5. For every base name and every list of existing channel names, the loop returns
  a candidate of the sequence \<open>base, base-1, base-2, ...\<close> that is not among the
  existing names, and every earlier candidate of the sequence is among them: it is the
  first unused one, and so it differs from every existing name. (The loop is total:
  \<open>unique_loop\<close> has a termination proof.)
\<close>

theorem unique_name_first_unused:
  "(\<exists>k. unique_name names base = candidate base k
       \<and> candidate base k \<notin> set names
       \<and> (\<forall>j<k. candidate base j \<in> set names))
   \<and> unique_name names base \<notin> set names"
proof -
  from unique_loop_first [of 0 base names]
  obtain k where "unique_name names base = candidate base k"
    and "candidate base k \<notin> set names"
    and "\<forall>j<k. candidate base j \<in> set names"
    by (auto simp: unique_name_def candidate_def)
  then show ?thesis by auto
qed

theorem unique_name_first_unused_witness:
  "unique_name [''a'', ''b'', ''a-1''] ''a'' = ''a-2''
   \<and> candidate ''a'' 2 = ''a-2''
   \<and> (\<exists>k. unique_name [''a'', ''b'', ''a-1''] ''a'' = candidate ''a'' k
      \<and> candidate ''a'' k \<notin> set [''a'', ''b'', ''a-1'']
      \<and> (\<forall>j<k. candidate ''a'' j \<in> set [''a'', ''b'', ''a-1'']))"
  using unique_name_first_unused [of "[''a'', ''b'', ''a-1'']" "''a''"]
  by (simp add: unique_name_def unique_loop.simps candidate_def show_nat.simps digit_char_def)

section \<open>The ticket lifecycle\<close>

lemmas example_defs =
  example_config_def example_staff_def example_guest_def example_user_def example_row_def
  example_channel_def example_log_channel_def example_messages_def example_world_def
  example_env_def

lemmas handler_defs =
  on_button_def on_command_def claim_button_def unclaim_button_def claim_command_def
  unclaim_command_def close_button_def close_command_def transcript_button_def
  manual_transcript_def notice_def caught_def ticket_channel_def isStaff_def
  getTicketById_def getTicketByChannel_def updateTicketClaim_def unclaimTicket_def
  closeTicketRow_def

lemma find_map_update:
  assumes "find P rows = Some r" and "\<And>t. P (g t) = P t"
  shows "find P (map g rows) = Some (g r)"
  using assms(1)
proof (induction rows)
  case Nil
  then show ?case by simp
next
  case (Cons t ts)
  then show ?case by (cases "P t") (simp_all add: assms(2))
qed

lemma getTicketById_found: "getTicketById rows i = Some r \<Longrightarrow> ticket_id r = i \<and> r \<in> set rows"
  by (auto simp: getTicketById_def find_Some_iff)

lemma getTicketByChannel_found:
  "getTicketByChannel rows c = Some r \<Longrightarrow> channel_id r = c \<and> r \<in> set rows"
  by (auto simp: getTicketByChannel_def find_Some_iff)

lemma byId_after_claim:
  assumes "getTicketById rows i = Some r"
  shows "getTicketById (updateTicketClaim rows i u) i = Some (r\<lparr>claimed_by := Some u\<rparr>)"
proof -
  let ?g = "\<lambda>t. if ticket_id t = i then t\<lparr>claimed_by := Some u\<rparr> else t"
  have "find (\<lambda>t. ticket_id t = i) (map ?g rows) = Some (?g r)"
    using assms unfolding getTicketById_def by (rule find_map_update) simp
  with getTicketById_found [OF assms] show ?thesis
    by (simp add: getTicketById_def updateTicketClaim_def)
qed

lemma byChannel_after_claim:
  assumes "getTicketByChannel rows c = Some r"
  shows "getTicketByChannel (updateTicketClaim rows (ticket_id r) u) c
         = Some (r\<lparr>claimed_by := Some u\<rparr>)"
proof -
  let ?g = "\<lambda>t. if ticket_id t = ticket_id r then t\<lparr>claimed_by := Some u\<rparr> else t"
  have "find (\<lambda>t. channel_id t = c) (map ?g rows) = Some (?g r)"
    using assms unfolding getTicketByChannel_def by (rule find_map_update) simp
  then show ?thesis
    by (simp add: getTicketByChannel_def updateTicketClaim_def)
qed

text \<open>
  C2. When the ticket exists (found by id for the button, by channel for the command)
  and is unclaimed, a claim by a staff member writes that member's id into
  \<open>claimed_by\<close> of the row and changes nothing else of the state; a claim by an actor
  who is not staff, or on a ticket that is claimed, changes nothing and answers with one
  error reply.
\<close>

theorem claim_sets_claimed_by_or_rejects:
  "(getTicketById (tickets w) ticketId = Some ticketRow \<longrightarrow>
      (isStaff cfg (Some m) \<and> claimed_by ticketRow = None \<longrightarrow>
        (let w' = fst (interactionCreate cfg e w (Button ''claim'' ticketId (Some m) usr))
         in w' = w\<lparr>tickets := updateTicketClaim (tickets w) ticketId (m_id m)\<rparr>
            \<and> getTicketById (tickets w') ticketId = Some (ticketRow\<lparr>claimed_by := Some (m_id m)\<rparr>)))
      \<and> (\<not> isStaff cfg member \<or> claimed_by ticketRow \<noteq> None \<longrightarrow>
        (\<exists>title. interactionCreate cfg e w (Button ''claim'' ticketId member usr)
                  = (w, [Reply (Embed Error title)]))))
   \<and> (getTicketByChannel (tickets w) (ch_id channel) = Some channelRow \<longrightarrow>
      (isStaff cfg (Some m) \<and> claimed_by channelRow = None \<longrightarrow>
        (let w' = fst (interactionCreate cfg e w (Command ''claim'' (Some m) usr channel))
         in w' = w\<lparr>tickets := updateTicketClaim (tickets w) (ticket_id channelRow) (m_id m)\<rparr>
            \<and> getTicketByChannel (tickets w') (ch_id channel)
                = Some (channelRow\<lparr>claimed_by := Some (m_id m)\<rparr>)))
      \<and> (\<not> isStaff cfg member \<or> claimed_by channelRow \<noteq> None \<longrightarrow>
        (\<exists>title. interactionCreate cfg e w (Command ''claim'' member usr channel)
                  = (w, [Reply (Embed Error title)]))))"
proof (intro conjI impI)
  assume byId: "getTicketById (tickets w) ticketId = Some ticketRow"
    and "isStaff cfg (Some m) \<and> claimed_by ticketRow = None"
  then show "let w' = fst (interactionCreate cfg e w (Button ''claim'' ticketId (Some m) usr))
         in w' = w\<lparr>tickets := updateTicketClaim (tickets w) ticketId (m_id m)\<rparr>
            \<and> getTicketById (tickets w') ticketId = Some (ticketRow\<lparr>claimed_by := Some (m_id m)\<rparr>)"
    using byId_after_claim [OF byId, of "m_id m"]
    by (simp add: on_button_def claim_button_def)
next
  assume "getTicketById (tickets w) ticketId = Some ticketRow"
    and "\<not> isStaff cfg member \<or> claimed_by ticketRow \<noteq> None"
  then show "\<exists>title. interactionCreate cfg e w (Button ''claim'' ticketId member usr)
                  = (w, [Reply (Embed Error title)])"
    by (auto simp: on_button_def claim_button_def)
next
  assume byChannel: "getTicketByChannel (tickets w) (ch_id channel) = Some channelRow"
    and "isStaff cfg (Some m) \<and> claimed_by channelRow = None"
  then show "let w' = fst (interactionCreate cfg e w (Command ''claim'' (Some m) usr channel))
         in w' = w\<lparr>tickets := updateTicketClaim (tickets w) (ticket_id channelRow) (m_id m)\<rparr>
            \<and> getTicketByChannel (tickets w') (ch_id channel)
                = Some (channelRow\<lparr>claimed_by := Some (m_id m)\<rparr>)"
    using byChannel_after_claim [OF byChannel, of "m_id m"]
    by (simp add: on_command_def claim_command_def Let_def)
next
  assume "getTicketByChannel (tickets w) (ch_id channel) = Some channelRow"
    and "\<not> isStaff cfg member \<or> claimed_by channelRow \<noteq> None"
  then show "\<exists>title. interactionCreate cfg e w (Command ''claim'' member usr channel)
                  = (w, [Reply (Embed Error title)])"
    by (auto simp: on_command_def claim_command_def)
qed

theorem claim_sets_claimed_by_or_rejects_witness:
  "getTicketById (tickets (fst (interactionCreate example_config example_env example_world
      (Button ''claim'' 1 (Some example_staff) example_user)))) 1
     = Some (example_row\<lparr>claimed_by := Some 42\<rparr>)
   \<and> getTicketByChannel (tickets (fst (interactionCreate example_config example_env example_world
      (Command ''claim'' (Some example_staff) example_user example_channel)))) 500
     = Some (example_row\<lparr>claimed_by := Some 42\<rparr>)
   \<and> interactionCreate example_config example_env example_world
        (Button ''claim'' 1 (Some example_guest) example_user)
      = (example_world, [Reply (Embed Error ''Geen permissie'')])
   \<and> interactionCreate example_config example_env example_world
        (Command ''claim'' (Some example_guest) example_user example_channel)
      = (example_world, [Reply (Embed Error ''Geen permissie'')])"
  using claim_sets_claimed_by_or_rejects [where w = example_world and ticketId = 1
      and ticketRow = example_row and channel = example_channel and channelRow = example_row
      and cfg = example_config and m = example_staff and e = example_env and usr = example_user
      and member = "Some example_guest"]
  by (simp add: example_defs handler_defs)


lemma byId_after_unclaim:
  assumes "getTicketById rows i = Some r"
  shows "getTicketById (unclaimTicket rows i) i = Some (r\<lparr>claimed_by := None\<rparr>)"
proof -
  let ?g = "\<lambda>t. if ticket_id t = i then t\<lparr>claimed_by := None\<rparr> else t"
  have "find (\<lambda>t. ticket_id t = i) (map ?g rows) = Some (?g r)"
    using assms unfolding getTicketById_def by (rule find_map_update) simp
  with getTicketById_found [OF assms] show ?thesis
    by (simp add: getTicketById_def unclaimTicket_def)
qed

lemma byChannel_after_unclaim:
  assumes "getTicketByChannel rows c = Some r"
  shows "getTicketByChannel (unclaimTicket rows (ticket_id r)) c = Some (r\<lparr>claimed_by := None\<rparr>)"
proof -
  let ?g = "\<lambda>t. if ticket_id t = ticket_id r then t\<lparr>claimed_by := None\<rparr> else t"
  have "find (\<lambda>t. channel_id t = c) (map ?g rows) = Some (?g r)"
    using assms unfolding getTicketByChannel_def by (rule find_map_update) simp
  then show ?thesis
    by (simp add: getTicketByChannel_def unclaimTicket_def)
qed

lemma unclaim_after_claim_rows:
  assumes keys: "distinct (map ticket_id rows)" and mem: "r \<in> set rows"
    and free: "claimed_by r = None"
  shows "unclaimTicket (updateTicketClaim rows (ticket_id r) u) (ticket_id r) = rows"
proof -
  have "(if ticket_id t = ticket_id r then t\<lparr>claimed_by := None\<rparr> else t) = t"
    if "t \<in> set rows" for t
  proof (cases "ticket_id t = ticket_id r")
    case True
    from keys have "inj_on ticket_id (set rows)" by (simp add: distinct_map)
    with True that mem have "t = r" by (auto dest: inj_onD)
    with free show ?thesis by simp
  next
    case False
    then show ?thesis by simp
  qed
  then show ?thesis
    by (simp add: unclaimTicket_def updateTicketClaim_def map_idI o_def if_distrib cong: if_cong)
qed

text \<open>
  C3. An unclaim by a staff member on a claimed ticket clears \<open>claimed_by\<close> and changes
  nothing else; an unclaim on an unclaimed ticket, or by an actor who is not staff,
  changes nothing and answers with one error reply. With ids a key of the table
  (\<open>PRIMARY KEY\<close>), an unclaim after a claim of an unclaimed ticket gives back the
  state before the claim.
\<close>

theorem unclaim_inverts_claim:
  "(getTicketById (tickets w) ticketId = Some ticketRow \<longrightarrow>
      (isStaff cfg (Some m) \<and> claimed_by ticketRow \<noteq> None \<longrightarrow>
        (let w' = fst (interactionCreate cfg e w (Button ''unclaim'' ticketId (Some m) usr))
         in w' = w\<lparr>tickets := unclaimTicket (tickets w) ticketId\<rparr>
            \<and> getTicketById (tickets w') ticketId = Some (ticketRow\<lparr>claimed_by := None\<rparr>)))
      \<and> (\<not> isStaff cfg member \<or> claimed_by ticketRow = None \<longrightarrow>
        (\<exists>title. interactionCreate cfg e w (Button ''unclaim'' ticketId member usr)
                  = (w, [Reply (Embed Error title)])))
      \<and> (distinct (map ticket_id (tickets w)) \<and> isStaff cfg (Some m) \<and> isStaff cfg (Some m')
            \<and> claimed_by ticketRow = None \<longrightarrow>
          fst (interactionCreate cfg e'
                (fst (interactionCreate cfg e w (Button ''claim'' ticketId (Some m) usr)))
                (Button ''unclaim'' ticketId (Some m') usr')) = w))
   \<and> (getTicketByChannel (tickets w) (ch_id channel) = Some channelRow \<longrightarrow>
      (isStaff cfg (Some m) \<and> claimed_by channelRow \<noteq> None \<longrightarrow>
        (let w' = fst (interactionCreate cfg e w (Command ''unclaim'' (Some m) usr channel))
         in w' = w\<lparr>tickets := unclaimTicket (tickets w) (ticket_id channelRow)\<rparr>
            \<and> getTicketByChannel (tickets w') (ch_id channel)
                = Some (channelRow\<lparr>claimed_by := None\<rparr>)))
      \<and> (\<not> isStaff cfg member \<or> claimed_by channelRow = None \<longrightarrow>
        (\<exists>title. interactionCreate cfg e w (Command ''unclaim'' member usr channel)
                  = (w, [Reply (Embed Error title)])))
      \<and> (distinct (map ticket_id (tickets w)) \<and> isStaff cfg (Some m) \<and> isStaff cfg (Some m')
            \<and> claimed_by channelRow = None \<longrightarrow>
          fst (interactionCreate cfg e'
                (fst (interactionCreate cfg e w (Command ''claim'' (Some m) usr channel)))
                (Command ''unclaim'' (Some m') usr' channel)) = w))"
proof (intro conjI impI)
  assume byId: "getTicketById (tickets w) ticketId = Some ticketRow"
    and "isStaff cfg (Some m) \<and> claimed_by ticketRow \<noteq> None"
  then show "let w' = fst (interactionCreate cfg e w (Button ''unclaim'' ticketId (Some m) usr))
         in w' = w\<lparr>tickets := unclaimTicket (tickets w) ticketId\<rparr>
            \<and> getTicketById (tickets w') ticketId = Some (ticketRow\<lparr>claimed_by := None\<rparr>)"
    using byId_after_unclaim [OF byId]
    by (auto simp: on_button_def unclaim_button_def)
next
  assume "getTicketById (tickets w) ticketId = Some ticketRow"
    and "\<not> isStaff cfg member \<or> claimed_by ticketRow = None"
  then show "\<exists>title. interactionCreate cfg e w (Button ''unclaim'' ticketId member usr)
                  = (w, [Reply (Embed Error title)])"
    by (auto simp: on_button_def unclaim_button_def)
next
  assume byId: "getTicketById (tickets w) ticketId = Some ticketRow"
    and a: "distinct (map ticket_id (tickets w)) \<and> isStaff cfg (Some m) \<and> isStaff cfg (Some m')
          \<and> claimed_by ticketRow = None"
  let ?w1 = "w\<lparr>tickets := updateTicketClaim (tickets w) ticketId (m_id m)\<rparr>"
  from a byId have first: "fst (interactionCreate cfg e w (Button ''claim'' ticketId (Some m) usr)) = ?w1"
    by (simp add: on_button_def claim_button_def)
  have found: "getTicketById (tickets ?w1) ticketId = Some (ticketRow\<lparr>claimed_by := Some (m_id m)\<rparr>)"
    using byId_after_claim [OF byId] by simp
  from getTicketById_found [OF byId] a
  have restored: "unclaimTicket (updateTicketClaim (tickets w) ticketId (m_id m)) ticketId = tickets w"
    using unclaim_after_claim_rows [of "tickets w" ticketRow "m_id m"] by simp
  from a found have "fst (interactionCreate cfg e' ?w1 (Button ''unclaim'' ticketId (Some m') usr'))
        = ?w1\<lparr>tickets := unclaimTicket (tickets ?w1) ticketId\<rparr>"
    by (simp add: on_button_def unclaim_button_def)
  with first restored show "fst (interactionCreate cfg e'
              (fst (interactionCreate cfg e w (Button ''claim'' ticketId (Some m) usr)))
              (Button ''unclaim'' ticketId (Some m') usr')) = w"
    by simp
next
  assume byChannel: "getTicketByChannel (tickets w) (ch_id channel) = Some channelRow"
    and "isStaff cfg (Some m) \<and> claimed_by channelRow \<noteq> None"
  then show "let w' = fst (interactionCreate cfg e w (Command ''unclaim'' (Some m) usr channel))
         in w' = w\<lparr>tickets := unclaimTicket (tickets w) (ticket_id channelRow)\<rparr>
            \<and> getTicketByChannel (tickets w') (ch_id channel)
                = Some (channelRow\<lparr>claimed_by := None\<rparr>)"
    using byChannel_after_unclaim [OF byChannel]
    by (auto simp: on_command_def unclaim_command_def Let_def)
next
  assume "getTicketByChannel (tickets w) (ch_id channel) = Some channelRow"
    and "\<not> isStaff cfg member \<or> claimed_by channelRow = None"
  then show "\<exists>title. interactionCreate cfg e w (Command ''unclaim'' member usr channel)
                  = (w, [Reply (Embed Error title)])"
    by (auto simp: on_command_def unclaim_command_def)
next
  assume byChannel: "getTicketByChannel (tickets w) (ch_id channel) = Some channelRow"
    and a: "distinct (map ticket_id (tickets w)) \<and> isStaff cfg (Some m) \<and> isStaff cfg (Some m')
          \<and> claimed_by channelRow = None"
  let ?i = "ticket_id channelRow"
  let ?w1 = "w\<lparr>tickets := updateTicketClaim (tickets w) ?i (m_id m)\<rparr>"
  from a byChannel
  have first: "fst (interactionCreate cfg e w (Command ''claim'' (Some m) usr channel)) = ?w1"
    by (simp add: on_command_def claim_command_def Let_def)
  have found: "getTicketByChannel (tickets ?w1) (ch_id channel)
               = Some (channelRow\<lparr>claimed_by := Some (m_id m)\<rparr>)"
    using byChannel_after_claim [OF byChannel] by simp
  from getTicketByChannel_found [OF byChannel] a
  have restored: "unclaimTicket (updateTicketClaim (tickets w) ?i (m_id m)) ?i = tickets w"
    using unclaim_after_claim_rows [of "tickets w" channelRow "m_id m"] by simp
  from a found have "fst (interactionCreate cfg e' ?w1 (Command ''unclaim'' (Some m') usr' channel))
        = ?w1\<lparr>tickets := unclaimTicket (tickets ?w1) ?i\<rparr>"
    by (simp add: on_command_def unclaim_command_def Let_def)
  with first restored show "fst (interactionCreate cfg e'
              (fst (interactionCreate cfg e w (Command ''claim'' (Some m) usr channel)))
              (Command ''unclaim'' (Some m') usr' channel)) = w"
    by simp
qed

theorem unclaim_inverts_claim_witness:
  "fst (interactionCreate example_config example_env example_claimed_world
      (Button ''unclaim'' 1 (Some example_staff) example_user)) = example_world
   \<and> fst (interactionCreate example_config example_env example_claimed_world
      (Command ''unclaim'' (Some example_staff) example_user example_channel)) = example_world
   \<and> interactionCreate example_config example_env example_claimed_world
        (Button ''unclaim'' 1 (Some example_guest) example_user)
      = (example_claimed_world, [Reply (Embed Error ''Geen permissie'')])
   \<and> interactionCreate example_config example_env example_world
        (Command ''unclaim'' (Some example_staff) example_user example_channel)
      = (example_world, [Reply (Embed Error ''Niet geclaimd'')])
   \<and> fst (interactionCreate example_config example_env
         (fst (interactionCreate example_config example_env example_world
                 (Button ''claim'' 1 (Some example_staff) example_user)))
         (Button ''unclaim'' 1 (Some example_staff) example_user)) = example_world
   \<and> fst (interactionCreate example_config example_env
         (fst (interactionCreate example_config example_env example_world
                 (Command ''claim'' (Some example_staff) example_user example_channel)))
         (Command ''unclaim'' (Some example_staff) example_user example_channel)) = example_world"
  using unclaim_inverts_claim [where w = example_claimed_world and ticketId = 1
      and ticketRow = "example_row\<lparr>claimed_by := Some 42\<rparr>" and channel = example_channel
      and channelRow = "example_row\<lparr>claimed_by := Some 42\<rparr>" and cfg = example_config
      and m = example_staff and e = example_env and usr = example_user
      and member = "Some example_guest" and m' = example_staff and e' = example_env
      and usr' = example_user]
    unclaim_inverts_claim [where w = example_world and ticketId = 1
      and ticketRow = example_row and channel = example_channel and channelRow = example_row
      and cfg = example_config and m = example_staff and e = example_env and usr = example_user
      and member = "Some example_staff" and m' = example_staff and e' = example_env
      and usr' = example_user]
  by (simp add: example_defs example_claimed_world_def handler_defs)

text \<open>
  C4 as stated says that a claim on a closed ticket does not change the record. The
  handlers never read \<open>status\<close>: on a closed, unclaimed ticket a claim by a staff
  member sets \<open>claimed_by\<close>.
\<close>

theorem claim_on_closed_ticket_changes_row:
  "getTicketById (tickets example_closed_world) 1 = Some example_closed_row
   \<and> status example_closed_row = ''closed''
   \<and> isStaff example_config (Some example_staff)
   \<and> getTicketById (tickets (fst (interactionCreate example_config example_env example_closed_world
         (Button ''claim'' 1 (Some example_staff) example_user)))) 1
      = Some (example_closed_row\<lparr>claimed_by := Some 42\<rparr>)
   \<and> example_closed_row\<lparr>claimed_by := Some 42\<rparr> \<noteq> example_closed_row"
  by (simp add: example_defs example_closed_row_def example_closed_world_def handler_defs)

text \<open>
  C4, as the code has it. On a ticket whose status is \<open>closed\<close>, a claim by a staff
  member (when the ticket is unclaimed) and an unclaim by a staff member (when it is
  claimed) change \<open>claimed_by\<close> as they do on an open ticket; the status stays
  \<open>closed\<close> and no other column changes.
\<close>

theorem claim_unclaim_ignore_status:
  "(getTicketById (tickets w) ticketId = Some ticketRow \<and> status ticketRow = ''closed''
      \<and> isStaff cfg (Some m) \<longrightarrow>
      (claimed_by ticketRow = None \<longrightarrow>
        getTicketById (tickets (fst (interactionCreate cfg e w (Button ''claim'' ticketId (Some m) usr)))) ticketId
          = Some (ticketRow\<lparr>claimed_by := Some (m_id m)\<rparr>))
      \<and> (claimed_by ticketRow \<noteq> None \<longrightarrow>
        getTicketById (tickets (fst (interactionCreate cfg e w (Button ''unclaim'' ticketId (Some m) usr)))) ticketId
          = Some (ticketRow\<lparr>claimed_by := None\<rparr>))
      \<and> status (ticketRow\<lparr>claimed_by := Some (m_id m)\<rparr>) = ''closed''
      \<and> status (ticketRow\<lparr>claimed_by := None\<rparr>) = ''closed'')
   \<and> (getTicketByChannel (tickets w) (ch_id channel) = Some channelRow
      \<and> status channelRow = ''closed'' \<and> isStaff cfg (Some m) \<longrightarrow>
      (claimed_by channelRow = None \<longrightarrow>
        getTicketByChannel (tickets (fst (interactionCreate cfg e w (Command ''claim'' (Some m) usr channel))))
            (ch_id channel)
          = Some (channelRow\<lparr>claimed_by := Some (m_id m)\<rparr>))
      \<and> (claimed_by channelRow \<noteq> None \<longrightarrow>
        getTicketByChannel (tickets (fst (interactionCreate cfg e w (Command ''unclaim'' (Some m) usr channel))))
            (ch_id channel)
          = Some (channelRow\<lparr>claimed_by := None\<rparr>))
      \<and> status (channelRow\<lparr>claimed_by := Some (m_id m)\<rparr>) = ''closed''
      \<and> status (channelRow\<lparr>claimed_by := None\<rparr>) = ''closed'')"
proof (intro conjI impI)
  assume a: "getTicketById (tickets w) ticketId = Some ticketRow \<and> status ticketRow = ''closed''
      \<and> isStaff cfg (Some m)"
  then have byId: "getTicketById (tickets w) ticketId = Some ticketRow" by simp
  {
    assume "claimed_by ticketRow = None"
    with a byId_after_claim [OF byId, of "m_id m"]
    show "getTicketById (tickets (fst (interactionCreate cfg e w (Button ''claim'' ticketId (Some m) usr)))) ticketId
          = Some (ticketRow\<lparr>claimed_by := Some (m_id m)\<rparr>)"
      by (simp add: on_button_def claim_button_def)
  next
    assume "claimed_by ticketRow \<noteq> None"
    with a byId_after_unclaim [OF byId]
    show "getTicketById (tickets (fst (interactionCreate cfg e w (Button ''unclaim'' ticketId (Some m) usr)))) ticketId
          = Some (ticketRow\<lparr>claimed_by := None\<rparr>)"
      by (auto simp: on_button_def unclaim_button_def)
  next
    from a show "status (ticketRow\<lparr>claimed_by := Some (m_id m)\<rparr>) = ''closed''"
      and "status (ticketRow\<lparr>claimed_by := None\<rparr>) = ''closed''"
      by simp_all
  }
next
  assume a: "getTicketByChannel (tickets w) (ch_id channel) = Some channelRow
      \<and> status channelRow = ''closed'' \<and> isStaff cfg (Some m)"
  then have byChannel: "getTicketByChannel (tickets w) (ch_id channel) = Some channelRow"
    by simp
  {
    assume "claimed_by channelRow = None"
    with a byChannel_after_claim [OF byChannel, of "m_id m"]
    show "getTicketByChannel (tickets (fst (interactionCreate cfg e w (Command ''claim'' (Some m) usr channel))))
            (ch_id channel)
          = Some (channelRow\<lparr>claimed_by := Some (m_id m)\<rparr>)"
      by (simp add: on_command_def claim_command_def Let_def)
  next
    assume "claimed_by channelRow \<noteq> None"
    with a byChannel_after_unclaim [OF byChannel]
    show "getTicketByChannel (tickets (fst (interactionCreate cfg e w (Command ''unclaim'' (Some m) usr channel))))
            (ch_id channel)
          = Some (channelRow\<lparr>claimed_by := None\<rparr>)"
      by (auto simp: on_command_def unclaim_command_def Let_def)
  next
    from a show "status (channelRow\<lparr>claimed_by := Some (m_id m)\<rparr>) = ''closed''"
      and "status (channelRow\<lparr>claimed_by := None\<rparr>) = ''closed''"
      by simp_all
  }
qed

theorem claim_unclaim_ignore_status_witness:
  "getTicketById (tickets (fst (interactionCreate example_config example_env example_closed_world
         (Button ''claim'' 1 (Some example_staff) example_user)))) 1
      = Some (example_closed_row\<lparr>claimed_by := Some 42\<rparr>)
   \<and> getTicketByChannel (tickets (fst (interactionCreate example_config example_env example_closed_world
         (Command ''claim'' (Some example_staff) example_user example_channel)))) 500
      = Some (example_closed_row\<lparr>claimed_by := Some 42\<rparr>)
   \<and> getTicketById (tickets (fst (interactionCreate example_config example_env
         (example_world\<lparr>tickets := [example_closed_row\<lparr>claimed_by := Some 42\<rparr>]\<rparr>)
         (Button ''unclaim'' 1 (Some example_staff) example_user)))) 1
      = Some example_closed_row
   \<and> getTicketByChannel (tickets (fst (interactionCreate example_config example_env
         (example_world\<lparr>tickets := [example_closed_row\<lparr>claimed_by := Some 42\<rparr>]\<rparr>)
         (Command ''unclaim'' (Some example_staff) example_user example_channel)))) 500
      = Some example_closed_row"
  using claim_unclaim_ignore_status [where w = example_closed_world and ticketId = 1
      and ticketRow = example_closed_row and channel = example_channel
      and channelRow = example_closed_row and cfg = example_config and m = example_staff
      and e = example_env and usr = example_user]
    claim_unclaim_ignore_status [where
      w = "example_world\<lparr>tickets := [example_closed_row\<lparr>claimed_by := Some 42\<rparr>]\<rparr>"
      and ticketId = 1 and ticketRow = "example_closed_row\<lparr>claimed_by := Some 42\<rparr>"
      and channel = example_channel
      and channelRow = "example_closed_row\<lparr>claimed_by := Some 42\<rparr>"
      and cfg = example_config and m = example_staff and e = example_env and usr = example_user]
  by (simp add: example_defs example_closed_row_def example_closed_world_def handler_defs)



lemma fetch_loop_total:
  "ok e MessagesFetch \<Longrightarrow> \<exists>ms. fetch_loop e channel messages lastId = Some ms"
proof (induction e channel messages lastId rule: fetch_loop.induct)
  case (1 e channel messages lastId)
  let ?fetched = "take 100 (older e channel lastId)"
  from "1.prems" have got: "fetch e channel 100 lastId = Some ?fetched"
    by (simp add: fetch_def)
  show ?case
  proof (cases "length ?fetched = 0 \<or> length ?fetched < 100")
    case True
    with got show ?thesis
      by (auto simp: fetch_loop.simps [of e channel messages lastId])
  next
    case False
    with "1.IH" [OF got _ _ "1.prems"] got show ?thesis
      by (simp add: fetch_loop.simps [of e channel messages lastId])
  qed
qed

lemma fetch_loop_rejected: "\<not> ok e MessagesFetch \<Longrightarrow> fetch_loop e channel messages lastId = None"
  by (simp add: fetch_loop.simps [of e channel messages lastId] fetch_def)

lemma makeTranscript_succeeds:
  assumes "ok e MessagesFetch" and "ok e WriteFile"
  shows "\<exists>text. makeTranscript cfg e fs channel
           = Inr (transcript_path cfg channel, fs(transcript_path cfg channel \<mapsto> text))"
proof -
  from fetch_loop_total [OF assms(1)] obtain ms where "fetch_loop e channel [] None = Some ms"
    by blast
  with assms(2) show ?thesis
    by (simp add: makeTranscript_def Let_def) blast
qed

lemma makeTranscript_fails:
  assumes "\<not> (ok e MessagesFetch \<and> ok e WriteFile)"
  shows "\<exists>err. makeTranscript cfg e fs channel = Inl err"
proof (cases "ok e MessagesFetch")
  case True
  from fetch_loop_total [OF True] obtain ms where "fetch_loop e channel [] None = Some ms"
    by blast
  with True assms show ?thesis
    by (simp add: makeTranscript_def Let_def)
next
  case False
  then show ?thesis
    by (simp add: makeTranscript_def fetch_loop_rejected)
qed

lemma byId_after_close:
  assumes "getTicketById rows i = Some r"
  shows "getTicketById (closeTicketRow rows i) i = Some (r\<lparr>status := ''closed''\<rparr>)"
proof -
  let ?g = "\<lambda>t. if ticket_id t = i then t\<lparr>status := ''closed''\<rparr> else t"
  have "find (\<lambda>t. ticket_id t = i) (map ?g rows) = Some (?g r)"
    using assms unfolding getTicketById_def by (rule find_map_update) simp
  with getTicketById_found [OF assms] show ?thesis
    by (simp add: getTicketById_def closeTicketRow_def)
qed

lemma byChannel_after_close:
  assumes "getTicketByChannel rows c = Some r"
  shows "getTicketByChannel (closeTicketRow rows (ticket_id r)) c = Some (r\<lparr>status := ''closed''\<rparr>)"
proof -
  let ?g = "\<lambda>t. if ticket_id t = ticket_id r then t\<lparr>status := ''closed''\<rparr> else t"
  have "find (\<lambda>t. channel_id t = c) (map ?g rows) = Some (?g r)"
    using assms unfolding getTicketByChannel_def by (rule find_map_update) simp
  then show ?thesis
    by (simp add: getTicketByChannel_def closeTicketRow_def)
qed

lemmas timer_defs =
  close_button_timeout_def close_command_timeout_def archive_def mail_owner_def
  remove_channel_def logChannel_def

lemma timer_deletes_after_transcript:
  assumes "ticket_channel w ticketRow = Some ch" and "ok e MessagesFetch" and "ok e WriteFile"
  shows "Delete (ch_id ch) (ok e ChannelDelete)
           \<in> set (snd (close_button_timeout cfg e w ticketRow ticketId))
         \<and> Delete (ch_id ch) (ok e ChannelDelete)
           \<in> set (snd (close_command_timeout cfg e w ticketRow))"
proof -
  from makeTranscript_succeeds [OF assms(2,3)] obtain body where
    "makeTranscript cfg e (files w) ch
       = Inr (transcript_path cfg ch, (files w)(transcript_path cfg ch \<mapsto> body))"
    by blast
  with assms(1) show ?thesis
    by (simp add: close_button_timeout_def close_command_timeout_def Let_def)
qed

lemma timer_stops_without_transcript:
  assumes "ticket_channel w ticketRow = Some ch" and "\<not> (ok e MessagesFetch \<and> ok e WriteFile)"
  shows "fst (close_button_timeout cfg e w ticketRow ticketId) = w
         \<and> (\<forall>c b. Delete c b \<notin> set (snd (close_button_timeout cfg e w ticketRow ticketId)))
         \<and> close_command_timeout cfg e w ticketRow = (w, [ConsoleError])"
proof -
  from makeTranscript_fails [OF assms(2)] obtain err where
    "makeTranscript cfg e (files w) ch = Inl err"
    by blast
  with assms(1) show ?thesis
    by (simp add: close_button_timeout_def close_command_timeout_def split: option.splits)
qed

text \<open>
  C1, as the code has it. A close by a staff member (button or command) on an existing
  ticket sets the status of the row to \<open>closed\<close> in the state the handler returns,
  whatever the platform answers, and the timer of 5000 ms is the last thing the handler
  starts. When the timer runs and the channel is in the cache: if the transcript is
  built (fetch and write succeed), the deletion of the channel is attempted, whether or
  not the archive delivery, the private message or the deletion itself succeed; if the
  transcript is not built, the state is left as it is and no deletion is attempted.
\<close>

theorem close_marks_closed_then_deletes_after_transcript:
  "(getTicketById (tickets w) ticketId = Some ticketRow \<and> isStaff cfg member \<longrightarrow>
      (let (w', effects) = interactionCreate cfg e w (Button ''close'' ticketId member usr)
       in w' = w\<lparr>tickets := closeTicketRow (tickets w) ticketId\<rparr>
          \<and> getTicketById (tickets w') ticketId = Some (ticketRow\<lparr>status := ''closed''\<rparr>)
          \<and> (ok e InteractionReply \<longrightarrow>
               last effects = SetTimeout 5000 (CloseButtonTimer ticketRow ticketId))))
   \<and> (getTicketByChannel (tickets w) (ch_id channel) = Some channelRow \<and> isStaff cfg member \<longrightarrow>
      (let (w', effects) = interactionCreate cfg e w (Command ''close'' member usr channel)
       in w' = w\<lparr>tickets := closeTicketRow (tickets w) (ticket_id channelRow)\<rparr>
          \<and> getTicketByChannel (tickets w') (ch_id channel)
              = Some (channelRow\<lparr>status := ''closed''\<rparr>)
          \<and> (ok e InteractionReply \<longrightarrow>
               last effects = SetTimeout 5000 (CloseCommandTimer channelRow))))
   \<and> (ticket_channel later ticketRow = Some ch \<and> ok e' MessagesFetch \<and> ok e' WriteFile \<longrightarrow>
        Delete (ch_id ch) (ok e' ChannelDelete)
          \<in> set (snd (run_timer cfg e' later (CloseButtonTimer ticketRow ticketId)))
        \<and> Delete (ch_id ch) (ok e' ChannelDelete)
          \<in> set (snd (run_timer cfg e' later (CloseCommandTimer ticketRow))))
   \<and> (ticket_channel later ticketRow = Some ch \<and> \<not> (ok e' MessagesFetch \<and> ok e' WriteFile) \<longrightarrow>
        fst (run_timer cfg e' later (CloseButtonTimer ticketRow ticketId)) = later
        \<and> fst (run_timer cfg e' later (CloseCommandTimer ticketRow)) = later
        \<and> (\<forall>c b. Delete c b
              \<notin> set (snd (run_timer cfg e' later (CloseButtonTimer ticketRow ticketId))))
        \<and> (\<forall>c b. Delete c b
              \<notin> set (snd (run_timer cfg e' later (CloseCommandTimer ticketRow)))))"
proof (intro conjI impI)
  assume a: "getTicketById (tickets w) ticketId = Some ticketRow \<and> isStaff cfg member"
  then have byId: "getTicketById (tickets w) ticketId = Some ticketRow" by simp
  from a byId_after_close [OF byId]
  show "let (w', effects) = interactionCreate cfg e w (Button ''close'' ticketId member usr)
       in w' = w\<lparr>tickets := closeTicketRow (tickets w) ticketId\<rparr>
          \<and> getTicketById (tickets w') ticketId = Some (ticketRow\<lparr>status := ''closed''\<rparr>)
          \<and> (ok e InteractionReply \<longrightarrow>
               last effects = SetTimeout 5000 (CloseButtonTimer ticketRow ticketId))"
    by (simp add: on_button_def close_button_def Let_def)
next
  assume a: "getTicketByChannel (tickets w) (ch_id channel) = Some channelRow \<and> isStaff cfg member"
  then have byChannel: "getTicketByChannel (tickets w) (ch_id channel) = Some channelRow"
    by simp
  from a byChannel_after_close [OF byChannel]
  show "let (w', effects) = interactionCreate cfg e w (Command ''close'' member usr channel)
       in w' = w\<lparr>tickets := closeTicketRow (tickets w) (ticket_id channelRow)\<rparr>
          \<and> getTicketByChannel (tickets w') (ch_id channel)
              = Some (channelRow\<lparr>status := ''closed''\<rparr>)
          \<and> (ok e InteractionReply \<longrightarrow>
               last effects = SetTimeout 5000 (CloseCommandTimer channelRow))"
    by (simp add: on_command_def close_command_def Let_def)
next
  assume a: "ticket_channel later ticketRow = Some ch \<and> ok e' MessagesFetch \<and> ok e' WriteFile"
  then have "ticket_channel later ticketRow = Some ch" "ok e' MessagesFetch" "ok e' WriteFile"
    by simp_all
  from timer_deletes_after_transcript [OF this, of cfg ticketId]
  show "Delete (ch_id ch) (ok e' ChannelDelete)
            \<in> set (snd (run_timer cfg e' later (CloseButtonTimer ticketRow ticketId)))"
    and "Delete (ch_id ch) (ok e' ChannelDelete)
            \<in> set (snd (run_timer cfg e' later (CloseCommandTimer ticketRow)))"
    by simp_all
next
  assume a: "ticket_channel later ticketRow = Some ch \<and> \<not> (ok e' MessagesFetch \<and> ok e' WriteFile)"
  then have "ticket_channel later ticketRow = Some ch" "\<not> (ok e' MessagesFetch \<and> ok e' WriteFile)"
    by simp_all
  from timer_stops_without_transcript [OF this, of cfg ticketId]
  show "fst (run_timer cfg e' later (CloseButtonTimer ticketRow ticketId)) = later"
    and "fst (run_timer cfg e' later (CloseCommandTimer ticketRow)) = later"
    and "\<forall>c b. Delete c b
                \<notin> set (snd (run_timer cfg e' later (CloseButtonTimer ticketRow ticketId)))"
    and "\<forall>c b. Delete c b
                \<notin> set (snd (run_timer cfg e' later (CloseCommandTimer ticketRow)))"
    by simp_all
qed

lemmas transcript_eval =
  makeTranscript_def fetch_loop.simps fetch_def older_def render_message_def transcript_path_def
  path_join_def or_else_def show_nat.simps digit_char_def

theorem close_marks_closed_then_deletes_after_transcript_witness:
  "interactionCreate example_config example_env example_world
       (Button ''close'' 1 (Some example_staff) example_user)
     = (example_closed_world,
        [Send 500 (Embed Action ''Ticket sluiten''), Reply (Embed Success ''Sluiten gestart''),
         SetTimeout 5000 (CloseButtonTimer example_row 1)])
   \<and> interactionCreate example_config example_env example_world
       (Command ''close'' (Some example_staff) example_user example_channel)
     = (example_closed_world,
        [Reply (Embed Action ''Sluiten gestart''), Send 500 (Embed Action ''Ticket sluiten''),
         SetTimeout 5000 (CloseCommandTimer example_row)])
   \<and> Delete 500 False
        \<in> set (snd (run_timer example_config example_env_no_delivery example_closed_world
                      (CloseButtonTimer example_row 1)))
   \<and> Delete 500 False
        \<in> set (snd (run_timer example_config example_env_no_delivery example_closed_world
                      (CloseCommandTimer example_row)))
   \<and> (\<forall>c b. Delete c b
        \<notin> set (snd (run_timer example_config example_env_no_fetch example_closed_world
                      (CloseCommandTimer example_row))))"
  using close_marks_closed_then_deletes_after_transcript [where w = example_world
      and ticketId = 1 and ticketRow = example_row and channel = example_channel
      and channelRow = example_row and cfg = example_config and member = "Some example_staff"
      and e = example_env and usr = example_user and later = example_closed_world
      and ch = example_channel and e' = example_env_no_delivery]
    close_marks_closed_then_deletes_after_transcript [where w = example_world
      and ticketId = 1 and ticketRow = example_row and channel = example_channel
      and channelRow = example_row and cfg = example_config and member = "Some example_staff"
      and e = example_env and usr = example_user and later = example_closed_world
      and ch = example_channel and e' = example_env_no_fetch]
  by (simp add: example_defs example_closed_row_def example_closed_world_def
        example_env_no_fetch_def example_env_no_delivery_def handler_defs)

text \<open>
  C1 as stated has the deletion attempted even if transcript generation failed. With
  the fetch of messages rejected, \<open>makeTranscript\<close> throws, the \<open>catch\<close> of the callback
  logs (the button's callback also tells the staff log), and the callback ends: no
  deletion is attempted.
\<close>

theorem close_timer_skips_deletion_when_transcript_fails:
  "ticket_channel example_closed_world example_row = Some example_channel
   \<and> makeTranscript example_config example_env_no_fetch (files example_closed_world) example_channel
       = Inl FetchFailed
   \<and> run_timer example_config example_env_no_fetch example_closed_world
        (CloseButtonTimer example_row 1)
       = (example_closed_world,
          [ConsoleError, LogSend (Embed Error ''Fout bij sluiten'') None True])
   \<and> run_timer example_config example_env_no_fetch example_closed_world
        (CloseCommandTimer example_row)
       = (example_closed_world, [ConsoleError])"
  by (simp add: example_defs example_closed_row_def example_closed_world_def
        example_env_no_fetch_def handler_defs timer_defs transcript_eval)

section \<open>The transcript\<close>

lemma foldl_append_concat: "foldl (\<lambda>acc x. acc @ f x) start xs = start @ concat (map f xs)"
  by (induction xs arbitrary: start) simp_all

lemma render_message_entry:
  "render_message msg = message_entry msg @ concat (map attachment_line (attachments msg))"
proof -
  have "foldl (\<lambda>acc url. acc @ ''    '' @ paperclip @ '' Attachment: '' @ url @ newline) []
          (attachments msg)
        = concat (map attachment_line (attachments msg))"
    using foldl_append_concat [of attachment_line "[]" "attachments msg"]
    by (simp add: attachment_line_def)
  then show ?thesis
    by (simp add: render_message_def message_entry_def or_else_def Let_def)
qed

lemma filter_below_nth:
  "sorted_wrt (\<lambda>a b. msg_id b < msg_id a) xs \<Longrightarrow> k < length xs \<Longrightarrow>
   filter (\<lambda>x. msg_id x < msg_id (xs ! k)) xs = drop (Suc k) xs"
proof (induction xs arbitrary: k)
  case Nil
  then show ?case by simp
next
  case (Cons a as)
  show ?case
  proof (cases k)
    case 0
    with Cons.prems show ?thesis by (simp add: filter_id_conv)
  next
    case (Suc j)
    with Cons.prems have "msg_id (as ! j) < msg_id a" by simp
    then have "\<not> msg_id a < msg_id (as ! j)" by simp
    with Suc Cons.prems Cons.IH [of j] show ?thesis by simp
  qed
qed

lemma older_newest_first:
  "newest_first (history e (ch_id channel)) \<Longrightarrow> newest_first (older e channel before_id)"
  by (cases before_id) (simp_all add: older_def newest_first_def sorted_wrt_filter)

lemma fetch_loop_short_page:
  assumes "ok e MessagesFetch" and "length (older e channel lastId) < 100"
  shows "fetch_loop e channel messages lastId = Some (messages @ older e channel lastId)"
  using assms by (simp add: fetch_loop.simps [of e channel messages lastId] fetch_def)

lemma fetch_loop_full_page:
  assumes "ok e MessagesFetch" and "100 \<le> length (older e channel lastId)"
  shows "fetch_loop e channel messages lastId
         = fetch_loop e channel (messages @ take 100 (older e channel lastId))
             (Some (msg_id (older e channel lastId ! 99)))"
proof -
  let ?rest = "older e channel lastId"
  from assms(2) have "take 100 ?rest \<noteq> []" by auto
  with assms(2) have "last (take 100 ?rest) = ?rest ! 99"
    by (simp add: last_conv_nth)
  with assms show ?thesis
    by (simp add: fetch_loop.simps [of e channel messages lastId] fetch_def)
qed

lemma older_after_full_page:
  assumes "newest_first (history e (ch_id channel))" and "100 \<le> length (older e channel lastId)"
  shows "older e channel (Some (msg_id (older e channel lastId ! 99)))
         = drop 100 (older e channel lastId)"
proof -
  let ?rest = "older e channel lastId"
  from assms(2) have mem: "?rest ! 99 \<in> set ?rest" by simp
  have sorted: "sorted_wrt (\<lambda>a b. msg_id b < msg_id a) ?rest"
    using older_newest_first [OF assms(1)] by (simp add: newest_first_def)
  from older_of_member [OF mem] filter_below_nth [OF sorted, of 99] assms(2)
  show ?thesis by simp
qed

lemma fetch_loop_collects:
  assumes "ok e MessagesFetch" and "newest_first (history e (ch_id channel))"
  shows "fetch_loop e channel messages lastId = Some (messages @ older e channel lastId)"
  using assms
proof (induction e channel messages lastId rule: fetch_loop.induct)
  case (1 e channel messages lastId)
  let ?rest = "older e channel lastId"
  show ?case
  proof (cases "length ?rest < 100")
    case True
    with "1.prems" show ?thesis by (simp add: fetch_loop_short_page)
  next
    case False
    then have full: "100 \<le> length ?rest" by simp
    from "1.prems" have got: "fetch e channel 100 lastId = Some (take 100 ?rest)"
      by (simp add: fetch_def)
    from full have "take 100 ?rest \<noteq> []" by auto
    with full have at: "last (take 100 ?rest) = ?rest ! 99"
      by (simp add: last_conv_nth)
    from full have "\<not> length (take 100 ?rest) = 0" "\<not> length (take 100 ?rest) < 100"
      by simp_all
    from "1.IH" [OF got this "1.prems"] at
      fetch_loop_full_page [OF "1.prems"(1) full] older_after_full_page [OF "1.prems"(2) full]
    show ?thesis by simp
  qed
qed

lemma makeTranscript_writes_history:
  assumes "ok e MessagesFetch" and "ok e WriteFile"
    and "newest_first (history e (ch_id channel))"
  shows "makeTranscript cfg e fs channel
         = Inr (transcript_path cfg channel,
                fs(transcript_path cfg channel
                     \<mapsto> transcript_text channel (rev (history e (ch_id channel)))))"
proof -
  have "fetch_loop e channel [] None = Some (history e (ch_id channel))"
    using fetch_loop_collects [OF assms(1,3), of "[]" None] by (simp add: older_def)
  moreover have "foldl (\<lambda>acc msg. acc @ render_message msg)
                   (''Transcript van #'' @ ch_name channel @ newline @ newline)
                   (rev (history e (ch_id channel)))
                 = transcript_text channel (rev (history e (ch_id channel)))"
    using foldl_append_concat [of render_message]
    by (simp add: transcript_text_def render_message_entry [abs_def])
  ultimately show ?thesis
    using assms(2) by (simp add: makeTranscript_def Let_def)
qed

lemma line_feeds_append: "line_feeds (a @ b) = line_feeds a + line_feeds b"
  by (simp add: line_feeds_def)

lemma line_feeds_concat: "line_feeds (concat xs) = sum_list (map line_feeds xs)"
  by (induction xs) (simp_all add: line_feeds_append, simp add: line_feeds_def)

lemma line_feeds_transcript_text:
  "line_feeds (transcript_text channel ms)
   = line_feeds (ch_name channel) + 2
     + sum_list (map (\<lambda>msg. line_feeds (message_entry msg)
                             + sum_list (map (\<lambda>url. line_feeds (attachment_line url))
                                           (attachments msg))) ms)"
proof -
  have step: "line_feeds (c # s) = (if c = CHR 0x0A then 1 else 0) + line_feeds s" for c s
    by (simp add: line_feeds_def)
  have "line_feeds newline = 1"
    by (simp add: line_feeds_def newline_def)
  then show ?thesis
    by (simp add: transcript_text_def line_feeds_append line_feeds_concat comp_def step)
qed

lemma line_feeds_message_entry:
  "line_feeds (message_entry msg)
   = 1 + line_feeds (createdAt msg) + line_feeds (or_else (author_tag msg) ''Onbekend'')
       + line_feeds (content msg)"
  by (simp add: message_entry_def line_feeds_def newline_def)

lemma line_feeds_attachment_line: "line_feeds (attachment_line url) = 1 + line_feeds url"
  by (simp add: attachment_line_def line_feeds_def newline_def paperclip_def)

text \<open>
  C6, as the code has it. When the platform answers the fetches and the file can be
  written, \<open>makeTranscript\<close> returns the path \<open>transcripts/<channel id>-transcript.txt\<close>
  under \<open>__dirname\<close>, and the file at that path holds, whatever it held before, the
  header and then the whole history oldest first: per message the entry
  \<open>[ISO-timestamp] author: content\<close> closed by a line feed, and one indented line per
  attachment. The content is copied as it is: the entry takes one line and one more for
  every line feed in its time, its author and its content, so it is exactly one line
  when these hold none; an attachment line takes one line and one more for every line
  feed in the URL; and the lines of the file are the two of the header (and those of the
  channel name) and the lines of the entries and attachment lines. The paging loop goes
  as the claim says, with
  \<open>older e channel lastId\<close> the messages not yet fetched: when fewer than 100 remain,
  the loop ends with all of them; when 100 or more remain, it takes the first 100 as one
  page and goes on anchored before the id of the last message of that page, with the
  messages after that page remaining.
\<close>

theorem makeTranscript_renders_history:
  assumes "ok e MessagesFetch" and "ok e WriteFile"
    and "newest_first (history e (ch_id channel))"
  shows "makeTranscript cfg e fs channel
         = Inr (transcript_path cfg channel,
                fs(transcript_path cfg channel
                     \<mapsto> transcript_text channel (rev (history e (ch_id channel)))))
     \<and> line_feeds (message_entry msg)
         = 1 + line_feeds (createdAt msg) + line_feeds (or_else (author_tag msg) ''Onbekend'')
             + line_feeds (content msg)
     \<and> line_feeds (attachment_line url) = 1 + line_feeds url
     \<and> line_feeds (transcript_text channel ms)
         = line_feeds (ch_name channel) + 2
           + sum_list (map (\<lambda>msg. line_feeds (message_entry msg)
                                   + sum_list (map (\<lambda>url. line_feeds (attachment_line url))
                                                 (attachments msg))) ms)
     \<and> (length (older e channel lastId) < 100 \<longrightarrow>
          fetch_loop e channel messages lastId = Some (messages @ older e channel lastId))
     \<and> (100 \<le> length (older e channel lastId) \<longrightarrow>
          fetch_loop e channel messages lastId
            = fetch_loop e channel (messages @ take 100 (older e channel lastId))
                (Some (msg_id (older e channel lastId ! 99)))
          \<and> older e channel (Some (msg_id (older e channel lastId ! 99)))
              = drop 100 (older e channel lastId))"
proof (intro conjI impI)
  show "makeTranscript cfg e fs channel
         = Inr (transcript_path cfg channel,
                fs(transcript_path cfg channel
                     \<mapsto> transcript_text channel (rev (history e (ch_id channel)))))"
    using assms by (rule makeTranscript_writes_history)
next
  show "line_feeds (message_entry msg)
         = 1 + line_feeds (createdAt msg) + line_feeds (or_else (author_tag msg) ''Onbekend'')
             + line_feeds (content msg)"
    by (rule line_feeds_message_entry)
next
  show "line_feeds (attachment_line url) = 1 + line_feeds url"
    by (rule line_feeds_attachment_line)
next
  show "line_feeds (transcript_text channel ms)
         = line_feeds (ch_name channel) + 2
           + sum_list (map (\<lambda>msg. line_feeds (message_entry msg)
                                   + sum_list (map (\<lambda>url. line_feeds (attachment_line url))
                                                 (attachments msg))) ms)"
    by (rule line_feeds_transcript_text)
next
  assume "length (older e channel lastId) < 100"
  with assms(1) show "fetch_loop e channel messages lastId
                      = Some (messages @ older e channel lastId)"
    by (rule fetch_loop_short_page)
next
  assume "100 \<le> length (older e channel lastId)"
  with assms(1) show "fetch_loop e channel messages lastId
            = fetch_loop e channel (messages @ take 100 (older e channel lastId))
                (Some (msg_id (older e channel lastId ! 99)))"
    by (rule fetch_loop_full_page)
next
  assume "100 \<le> length (older e channel lastId)"
  with assms(3) show "older e channel (Some (msg_id (older e channel lastId ! 99)))
              = drop 100 (older e channel lastId)"
    by (rule older_after_full_page)
qed

text \<open>A history of 250 messages: three pages, of 100, 100 and 50 messages.\<close>

lemma long_history_newest_first: "newest_first example_long_history"
proof -
  have "sorted_wrt (\<lambda>a b. b < a) (rev [1..<251::nat])"
    by (simp add: sorted_wrt_rev)
  then show ?thesis
    by (simp add: newest_first_def example_long_history_def sorted_wrt_map)
qed

lemma long_history_nth:
  "k < 250 \<Longrightarrow> msg_id (example_long_history ! k) = 250 - k"
  by (simp add: example_long_history_def rev_nth)

lemma long_history_length: "length example_long_history = 250"
  by (simp add: example_long_history_def)


lemmas transcript_spec_eval =
  transcript_text_def message_entry_def attachment_line_def newest_first_def

theorem makeTranscript_renders_history_witness:
  "makeTranscript example_config example_env Map.empty example_channel
   = Inr (''/srv/bot/transcripts/500-transcript.txt'',
          [''/srv/bot/transcripts/500-transcript.txt'' \<mapsto>
             ''Transcript van #pc-checks-alice'' @ newline @ newline
             @ ''[2024-01-01T10:00:00.000Z] alice: hi'' @ newline
             @ ''[2024-01-01T10:01:00.000Z] Onbekend: '' @ newline
             @ ''    '' @ paperclip @ '' Attachment: https://cdn/a.png'' @ newline
             @ ''    '' @ paperclip @ '' Attachment: https://cdn/b.png'' @ newline
             @ ''[2024-01-01T10:02:00.000Z] staff#1: done'' @ newline])
   \<and> line_feeds (message_entry (example_messages ! 2)) = 1
   \<and> line_feeds (attachment_line ''https://cdn/a.png'') = 1
   \<and> line_feeds (transcript_text example_channel (rev example_messages)) = 7
   \<and> length example_long_history = 250
   \<and> fetch_loop example_long_env example_channel [] None
      = fetch_loop example_long_env example_channel (take 100 example_long_history) (Some 151)
   \<and> fetch_loop example_long_env example_channel (take 100 example_long_history) (Some 151)
      = fetch_loop example_long_env example_channel (take 200 example_long_history) (Some 51)
   \<and> length (older example_long_env example_channel (Some 51)) = 50
   \<and> fetch_loop example_long_env example_channel (take 200 example_long_history) (Some 51)
      = Some example_long_history"
proof -
  let ?e = example_long_env and ?c = example_channel and ?h = example_long_history
  have small: "makeTranscript example_config example_env Map.empty example_channel
   = Inr (''/srv/bot/transcripts/500-transcript.txt'',
          [''/srv/bot/transcripts/500-transcript.txt'' \<mapsto>
             ''Transcript van #pc-checks-alice'' @ newline @ newline
             @ ''[2024-01-01T10:00:00.000Z] alice: hi'' @ newline
             @ ''[2024-01-01T10:01:00.000Z] Onbekend: '' @ newline
             @ ''    '' @ paperclip @ '' Attachment: https://cdn/a.png'' @ newline
             @ ''    '' @ paperclip @ '' Attachment: https://cdn/b.png'' @ newline
             @ ''[2024-01-01T10:02:00.000Z] staff#1: done'' @ newline])"
    using makeTranscript_renders_history [of example_env example_channel example_config Map.empty]
    by (simp add: example_defs transcript_eval transcript_spec_eval)
  have lines: "line_feeds (message_entry (example_messages ! 2)) = 1"
    "line_feeds (attachment_line ''https://cdn/a.png'') = 1"
    "line_feeds (transcript_text example_channel (rev example_messages)) = 7"
    using makeTranscript_renders_history [where e = example_env and channel = example_channel
        and cfg = example_config and fs = Map.empty and msg = "example_messages ! 2"
        and url = "''https://cdn/a.png''" and ms = "rev example_messages"]
    by (simp_all add: example_defs newest_first_def line_feeds_def or_else_def
          message_entry_def attachment_line_def newline_def paperclip_def)
  have fine: "ok ?e MessagesFetch" "ok ?e WriteFile"
    by (simp_all add: example_long_env_def example_env_def)
  have order: "newest_first (history ?e (ch_id ?c))"
    using long_history_newest_first by (simp add: example_long_env_def)
  note page = makeTranscript_renders_history [OF fine order]
  have rest0: "older ?e ?c None = ?h"
    by (simp add: older_def example_long_env_def)
  from page [where lastId = None and messages = "[]"] rest0 long_history_length
    long_history_nth [of 99]
  have step1: "fetch_loop ?e ?c [] None = fetch_loop ?e ?c (take 100 ?h) (Some 151)"
    and rest1: "older ?e ?c (Some 151) = drop 100 ?h"
    by simp_all
  have joined: "take 100 ?h @ take 100 (drop 100 ?h) = take 200 ?h"
    using take_add [of 100 100 ?h] by simp
  from page [where lastId = "Some 151" and messages = "take 100 ?h"] rest1 long_history_length
    long_history_nth [of 199] joined
  have step2: "fetch_loop ?e ?c (take 100 ?h) (Some 151) = fetch_loop ?e ?c (take 200 ?h) (Some 51)"
    and rest2: "older ?e ?c (Some 51) = drop 200 ?h"
    by simp_all
  from page [where lastId = "Some 51" and messages = "take 200 ?h"] rest2 long_history_length
  have step3: "fetch_loop ?e ?c (take 200 ?h) (Some 51) = Some ?h"
    by simp
  from rest2 long_history_length have short: "length (older ?e ?c (Some 51)) = 50"
    by simp
  from small lines long_history_length step1 step2 short step3 show ?thesis
    by blast
qed

text \<open>
  C6 as stated gives every message exactly one line. The loop writes the content of a
  message as it is, so a content with a line feed in it takes more than one line. Here
  the history is one message without attachment whose content is \<open>first\<close>, a line
  feed, \<open>second\<close>: what the loop appends for it has two line feeds, and the file
  holds, after the header, the two lines \<open>[2024-01-01T10:00:00.000Z] alice: first\<close>
  and \<open>second\<close>.
\<close>

theorem makeTranscript_splits_multiline_content:
  "history example_multiline_env (ch_id example_channel) = [example_multiline_message]
   \<and> attachments example_multiline_message = []
   \<and> line_feeds (render_message example_multiline_message) = 2
   \<and> makeTranscript example_config example_multiline_env Map.empty example_channel
      = Inr (''/srv/bot/transcripts/500-transcript.txt'',
             [''/srv/bot/transcripts/500-transcript.txt'' \<mapsto>
                ''Transcript van #pc-checks-alice'' @ newline @ newline
                @ ''[2024-01-01T10:00:00.000Z] alice: first'' @ newline
                @ ''second'' @ newline])"
  by (simp add: example_defs example_multiline_env_def example_multiline_message_def
        transcript_eval line_feeds_def newline_def Let_def)

section \<open>The manual transcript\<close>

lemma manual_transcript_frame:
  "\<exists>fs'. fst (manual_transcript cfg e w usr ch) = w\<lparr>files := fs'\<rparr>"
proof (cases "makeTranscript cfg e (files w) ch")
  case (Inl err)
  then have "fst (manual_transcript cfg e w usr ch) = w\<lparr>files := files w\<rparr>"
    by (simp add: manual_transcript_def Let_def)
  then show ?thesis by blast
next
  case (Inr written)
  then show ?thesis
    by (cases written; cases "ok e InteractionReply")
       (auto simp: manual_transcript_def Let_def intro: exI [of _ "files w"])
qed

lemma archive_no_delete: "Delete c b \<notin> set (archive cfg e w embed' filepath)"
  by (simp add: archive_def split: option.splits)

lemma deliver_manual_no_delete: "Delete c b \<notin> set (deliver_manual cfg e w usr filepath)"
  by (simp add: deliver_manual_def archive_no_delete split: option.splits)

lemma manual_transcript_no_delete: "Delete c b \<notin> set (snd (manual_transcript cfg e w usr ch))"
  by (simp add: manual_transcript_def Let_def caught_def deliver_manual_no_delete
        split: sum.splits prod.splits)

lemma transcript_button_frame:
  "(\<exists>fs'. fst (interactionCreate cfg e w (Button ''transcript'' ticketId member usr))
            = w\<lparr>files := fs'\<rparr>)
   \<and> (\<forall>c b. Delete c b
          \<notin> set (snd (interactionCreate cfg e w (Button ''transcript'' ticketId member usr))))"
proof -
  have same: "\<exists>fs'. w = w\<lparr>files := fs'\<rparr>"
    by (rule exI [of _ "files w"]) simp
  show ?thesis
    using same manual_transcript_frame [of cfg e w usr] manual_transcript_no_delete [of _ _ cfg e w usr]
    by (simp add: on_button_def transcript_button_def split: option.splits)
qed

lemma transcript_command_frame:
  "(\<exists>fs'. fst (interactionCreate cfg e w (Command ''transcript'' member usr channel))
            = w\<lparr>files := fs'\<rparr>)
   \<and> (\<forall>c b. Delete c b
          \<notin> set (snd (interactionCreate cfg e w (Command ''transcript'' member usr channel))))"
proof -
  have same: "\<exists>fs'. w = w\<lparr>files := fs'\<rparr>"
    by (rule exI [of _ "files w"]) simp
  show ?thesis
    using same manual_transcript_frame [of cfg e w usr] manual_transcript_no_delete [of _ _ cfg e w usr]
    by (simp add: on_command_def split: option.splits)
qed

lemma manual_transcript_written:
  assumes "ok e InteractionReply" and "ok e MessagesFetch" and "ok e WriteFile"
    and "newest_first (history e (ch_id ch))"
  shows "manual_transcript cfg e w usr ch
         = (let w' = w\<lparr>files := (files w)(transcript_path cfg ch
                               \<mapsto> transcript_text ch (rev (history e (ch_id ch))))\<rparr>
            in (w', Reply (Embed Info ''Transcript'')
                      # deliver_manual cfg e w' usr (transcript_path cfg ch)))"
  using makeTranscript_writes_history [OF assms(2,3,4), of cfg "files w"] assms(1)
  by (simp add: manual_transcript_def Let_def)

lemma deliver_manual_cases:
  "(STAFF_LOG_CHANNEL_ID cfg = None \<longrightarrow>
      deliver_manual cfg e w usr filepath
        = DirectMessage (u_id usr) (Embed Info ''Transcript'') filepath (ok e DirectMessageCall)
            # (if ok e DirectMessageCall then [] else [FollowUp (Embed Error ''DM mislukt'')]))
   \<and> (logChannel cfg e w \<noteq> None \<longrightarrow>
        deliver_manual cfg e w usr filepath
          = [LogSend (Embed Info ''Transcript'') (Some filepath) (ok e LogSendCall)])
   \<and> (STAFF_LOG_CHANNEL_ID cfg \<noteq> None \<and> logChannel cfg e w = None \<longrightarrow>
        deliver_manual cfg e w usr filepath = [])"
  by (auto simp: deliver_manual_def archive_def logChannel_def split: option.splits)

text \<open>
  C9, as the code has it. A manual transcript (button or command), whoever invokes it
  and whatever the status of the ticket, leaves every row of the table and the channel
  cache as they were and attempts no deletion; only the files can change. Invoked by a
  staff member, with the reply sent, the history fetched and the file written, it
  leaves the state as it was but for the file of the channel, which then holds the
  transcript of the whole history, and after the reply it does what the delivery
  does and nothing else. The delivery has three cases. With no staff log configured, it
  is one private message with the file to the invoker, and a follow-up when that
  message is rejected. With the staff log found (in the cache or by a fetch), it is one
  message with the file to the staff log. With a staff log configured that is not
  found, it is nothing: the file is written and nobody receives it.
\<close>

theorem manual_transcript_leaves_ticket_and_channel:
  "(let (w', effects) = interactionCreate cfg e w (Button ''transcript'' ticketId member usr)
    in tickets w' = tickets w \<and> channels w' = channels w
       \<and> (\<forall>c b. Delete c b \<notin> set effects))
   \<and> (let (w', effects) = interactionCreate cfg e w (Command ''transcript'' member usr channel)
      in tickets w' = tickets w \<and> channels w' = channels w
         \<and> (\<forall>c b. Delete c b \<notin> set effects))
   \<and> (getTicketById (tickets w) ticketId = Some ticketRow \<and> isStaff cfg member
        \<and> ok e InteractionReply \<and> ok e MessagesFetch \<and> ok e WriteFile
        \<and> newest_first (history e (ch_id ch))
        \<and> ticket_channel w ticketRow = Some ch \<longrightarrow>
      (let w' = w\<lparr>files := (files w)(transcript_path cfg ch
                              \<mapsto> transcript_text ch (rev (history e (ch_id ch))))\<rparr>
       in interactionCreate cfg e w (Button ''transcript'' ticketId member usr)
          = (w', Reply (Embed Info ''Transcript'')
                   # deliver_manual cfg e w' usr (transcript_path cfg ch))))
   \<and> (getTicketByChannel (tickets w) (ch_id channel) = Some channelRow \<and> isStaff cfg member
        \<and> ok e InteractionReply \<and> ok e MessagesFetch \<and> ok e WriteFile
        \<and> newest_first (history e (ch_id channel)) \<longrightarrow>
      (let w' = w\<lparr>files := (files w)(transcript_path cfg channel
                              \<mapsto> transcript_text channel (rev (history e (ch_id channel))))\<rparr>
       in interactionCreate cfg e w (Command ''transcript'' member usr channel)
          = (w', Reply (Embed Info ''Transcript'')
                   # deliver_manual cfg e w' usr (transcript_path cfg channel))))
   \<and> (STAFF_LOG_CHANNEL_ID cfg = None \<longrightarrow>
        deliver_manual cfg e later usr filepath
          = DirectMessage (u_id usr) (Embed Info ''Transcript'') filepath (ok e DirectMessageCall)
              # (if ok e DirectMessageCall then [] else [FollowUp (Embed Error ''DM mislukt'')]))
   \<and> (logChannel cfg e later \<noteq> None \<longrightarrow>
        deliver_manual cfg e later usr filepath
          = [LogSend (Embed Info ''Transcript'') (Some filepath) (ok e LogSendCall)])
   \<and> (STAFF_LOG_CHANNEL_ID cfg \<noteq> None \<and> logChannel cfg e later = None \<longrightarrow>
        deliver_manual cfg e later usr filepath = [])"
proof (intro conjI impI)
  from transcript_button_frame [of cfg e w ticketId member usr]
  obtain fs' where "fst (interactionCreate cfg e w (Button ''transcript'' ticketId member usr))
            = w\<lparr>files := fs'\<rparr>"
    and "\<forall>c b. Delete c b
          \<notin> set (snd (interactionCreate cfg e w (Button ''transcript'' ticketId member usr)))"
    by blast
  then show "let (w', effects) = interactionCreate cfg e w (Button ''transcript'' ticketId member usr)
      in tickets w' = tickets w \<and> channels w' = channels w
         \<and> (\<forall>c b. Delete c b \<notin> set effects)"
    by (simp add: case_prod_beta)
next
  from transcript_command_frame [of cfg e w member usr channel]
  obtain fs' where "fst (interactionCreate cfg e w (Command ''transcript'' member usr channel))
            = w\<lparr>files := fs'\<rparr>"
    and "\<forall>c b. Delete c b
          \<notin> set (snd (interactionCreate cfg e w (Command ''transcript'' member usr channel)))"
    by blast
  then show "let (w', effects) = interactionCreate cfg e w (Command ''transcript'' member usr channel)
        in tickets w' = tickets w \<and> channels w' = channels w
           \<and> (\<forall>c b. Delete c b \<notin> set effects)"
    by (simp add: case_prod_beta)
next
  assume a: "getTicketById (tickets w) ticketId = Some ticketRow \<and> isStaff cfg member
        \<and> ok e InteractionReply \<and> ok e MessagesFetch \<and> ok e WriteFile
        \<and> newest_first (history e (ch_id ch))
        \<and> ticket_channel w ticketRow = Some ch"
  then have "ok e InteractionReply" "ok e MessagesFetch" "ok e WriteFile"
    "newest_first (history e (ch_id ch))" by simp_all
  from manual_transcript_written [OF this, of cfg w usr] a
  show "let w' = w\<lparr>files := (files w)(transcript_path cfg ch
                              \<mapsto> transcript_text ch (rev (history e (ch_id ch))))\<rparr>
        in interactionCreate cfg e w (Button ''transcript'' ticketId member usr)
           = (w', Reply (Embed Info ''Transcript'')
                    # deliver_manual cfg e w' usr (transcript_path cfg ch))"
    by (simp add: on_button_def transcript_button_def Let_def)
next
  assume a: "getTicketByChannel (tickets w) (ch_id channel) = Some channelRow \<and> isStaff cfg member
        \<and> ok e InteractionReply \<and> ok e MessagesFetch \<and> ok e WriteFile
        \<and> newest_first (history e (ch_id channel))"
  then have "ok e InteractionReply" "ok e MessagesFetch" "ok e WriteFile"
    "newest_first (history e (ch_id channel))" by simp_all
  from manual_transcript_written [OF this, of cfg w usr] a
  show "let w' = w\<lparr>files := (files w)(transcript_path cfg channel
                              \<mapsto> transcript_text channel (rev (history e (ch_id channel))))\<rparr>
        in interactionCreate cfg e w (Command ''transcript'' member usr channel)
           = (w', Reply (Embed Info ''Transcript'')
                    # deliver_manual cfg e w' usr (transcript_path cfg channel))"
    by (simp add: on_command_def Let_def)
next
  assume "STAFF_LOG_CHANNEL_ID cfg = None"
  with deliver_manual_cases [of cfg e later usr filepath]
  show "deliver_manual cfg e later usr filepath
          = DirectMessage (u_id usr) (Embed Info ''Transcript'') filepath (ok e DirectMessageCall)
              # (if ok e DirectMessageCall then [] else [FollowUp (Embed Error ''DM mislukt'')])"
    by simp
next
  assume "logChannel cfg e later \<noteq> None"
  with deliver_manual_cases [of cfg e later usr filepath]
  show "deliver_manual cfg e later usr filepath
            = [LogSend (Embed Info ''Transcript'') (Some filepath) (ok e LogSendCall)]"
    by simp
next
  assume "STAFF_LOG_CHANNEL_ID cfg \<noteq> None \<and> logChannel cfg e later = None"
  with deliver_manual_cases [of cfg e later usr filepath]
  show "deliver_manual cfg e later usr filepath = []"
    by simp
qed

theorem manual_transcript_leaves_ticket_and_channel_witness:
  "interactionCreate example_config example_env example_closed_world
       (Button ''transcript'' 1 (Some example_staff) example_user)
     = (example_closed_world
          \<lparr>files := [''/srv/bot/transcripts/500-transcript.txt''
                       \<mapsto> transcript_text example_channel (rev example_messages)]\<rparr>,
        [Reply (Embed Info ''Transcript''),
         LogSend (Embed Info ''Transcript'') (Some ''/srv/bot/transcripts/500-transcript.txt'') True])
   \<and> interactionCreate example_config example_env example_closed_world
         (Command ''transcript'' (Some example_staff) example_user example_channel)
       = (example_closed_world
            \<lparr>files := [''/srv/bot/transcripts/500-transcript.txt''
                         \<mapsto> transcript_text example_channel (rev example_messages)]\<rparr>,
          [Reply (Embed Info ''Transcript''),
           LogSend (Embed Info ''Transcript'') (Some ''/srv/bot/transcripts/500-transcript.txt'') True])
   \<and> deliver_manual (example_config\<lparr>STAFF_LOG_CHANNEL_ID := None\<rparr>) example_env
        example_closed_world example_user ''t.txt''
       = [DirectMessage 7 (Embed Info ''Transcript'') ''t.txt'' True]
   \<and> deliver_manual (example_config\<lparr>STAFF_LOG_CHANNEL_ID := None\<rparr>) example_env_no_delivery
        example_closed_world example_user ''t.txt''
       = [DirectMessage 7 (Embed Info ''Transcript'') ''t.txt'' False,
          FollowUp (Embed Error ''DM mislukt'')]
   \<and> deliver_manual example_config example_env example_world_no_log example_user ''t.txt'' = []"
proof -
  note found = manual_transcript_leaves_ticket_and_channel [where w = example_closed_world
      and ticketId = 1 and ticketRow = example_closed_row and channel = example_channel
      and channelRow = example_closed_row and cfg = example_config and e = example_env
      and member = "Some example_staff" and usr = example_user and ch = example_channel
      and later = "example_closed_world
          \<lparr>files := [''/srv/bot/transcripts/500-transcript.txt''
                       \<mapsto> transcript_text example_channel (rev example_messages)]\<rparr>"
      and filepath = "''/srv/bot/transcripts/500-transcript.txt''"]
  have asked: "getTicketById (tickets example_closed_world) 1 = Some example_closed_row"
    "getTicketByChannel (tickets example_closed_world) (ch_id example_channel)
       = Some example_closed_row"
    "ticket_channel example_closed_world example_closed_row = Some example_channel"
    "isStaff example_config (Some example_staff)"
    by (simp_all add: example_defs example_closed_row_def example_closed_world_def
          getTicketById_def getTicketByChannel_def ticket_channel_def isStaff_def)
  have fine: "ok example_env InteractionReply" "ok example_env MessagesFetch"
    "ok example_env WriteFile" "newest_first (history example_env (ch_id example_channel))"
    by (simp_all add: example_defs newest_first_def)
  have path: "transcript_path example_config example_channel
              = ''/srv/bot/transcripts/500-transcript.txt''"
    by (simp add: example_defs transcript_path_def path_join_def show_nat.simps digit_char_def)
  have texts: "history example_env (ch_id example_channel) = example_messages"
    "files example_closed_world = Map.empty"
    by (simp_all add: example_defs example_closed_world_def)
  have log: "logChannel example_config example_env
               (example_closed_world
                  \<lparr>files := [''/srv/bot/transcripts/500-transcript.txt''
                               \<mapsto> transcript_text example_channel (rev example_messages)]\<rparr>)
             \<noteq> None"
    by (simp add: example_defs example_closed_world_def logChannel_def)
  from found asked fine log have sent:
    "deliver_manual example_config example_env
       (example_closed_world
          \<lparr>files := [''/srv/bot/transcripts/500-transcript.txt''
                       \<mapsto> transcript_text example_channel (rev example_messages)]\<rparr>)
       example_user ''/srv/bot/transcripts/500-transcript.txt''
     = [LogSend (Embed Info ''Transcript'') (Some ''/srv/bot/transcripts/500-transcript.txt'') True]"
    by (simp add: example_env_def)
  from found asked fine have button:
    "interactionCreate example_config example_env example_closed_world
       (Button ''transcript'' 1 (Some example_staff) example_user)
     = (example_closed_world
          \<lparr>files := [''/srv/bot/transcripts/500-transcript.txt''
                       \<mapsto> transcript_text example_channel (rev example_messages)]\<rparr>,
        [Reply (Embed Info ''Transcript''),
         LogSend (Embed Info ''Transcript'') (Some ''/srv/bot/transcripts/500-transcript.txt'') True])"
    by (simp add: Let_def path texts sent)
  from found asked fine have command:
    "interactionCreate example_config example_env example_closed_world
         (Command ''transcript'' (Some example_staff) example_user example_channel)
       = (example_closed_world
            \<lparr>files := [''/srv/bot/transcripts/500-transcript.txt''
                         \<mapsto> transcript_text example_channel (rev example_messages)]\<rparr>,
          [Reply (Embed Info ''Transcript''),
           LogSend (Embed Info ''Transcript'') (Some ''/srv/bot/transcripts/500-transcript.txt'') True])"
    by (simp add: Let_def path texts sent)
  from manual_transcript_leaves_ticket_and_channel
      [where cfg = "example_config\<lparr>STAFF_LOG_CHANNEL_ID := None\<rparr>" and e = example_env
        and later = example_closed_world and usr = example_user and filepath = "''t.txt''"]
  have direct: "deliver_manual (example_config\<lparr>STAFF_LOG_CHANNEL_ID := None\<rparr>) example_env
        example_closed_world example_user ''t.txt''
       = [DirectMessage 7 (Embed Info ''Transcript'') ''t.txt'' True]"
    by (simp add: example_config_def example_env_def example_user_def)
  from manual_transcript_leaves_ticket_and_channel
      [where cfg = "example_config\<lparr>STAFF_LOG_CHANNEL_ID := None\<rparr>"
        and e = example_env_no_delivery
        and later = example_closed_world and usr = example_user and filepath = "''t.txt''"]
  have refused: "deliver_manual (example_config\<lparr>STAFF_LOG_CHANNEL_ID := None\<rparr>)
        example_env_no_delivery example_closed_world example_user ''t.txt''
       = [DirectMessage 7 (Embed Info ''Transcript'') ''t.txt'' False,
          FollowUp (Embed Error ''DM mislukt'')]"
    by (simp add: example_config_def example_env_def example_env_no_delivery_def example_user_def)
  have lost: "STAFF_LOG_CHANNEL_ID example_config \<noteq> None"
    "logChannel example_config example_env example_world_no_log = None"
    by (simp_all add: example_defs example_world_no_log_def logChannel_def)
  with manual_transcript_leaves_ticket_and_channel
      [where cfg = example_config and e = example_env
        and later = example_world_no_log and usr = example_user and filepath = "''t.txt''"]
  have nobody: "deliver_manual example_config example_env example_world_no_log example_user
                  ''t.txt'' = []"
    by blast
  from button command direct refused nobody show ?thesis
    by blast
qed

text \<open>
  C9 as stated says that the action writes and delivers the transcript. When a staff
  log is configured and its channel is neither in the cache nor fetched, the code skips
  the message to the log under \<open>if (logCh)\<close> and never reaches the \<open>else\<close> branch with
  the private message: the file is written, and after the reply nothing is sent to
  anybody. Here a staff member asks for the transcript of the example ticket in a guild
  whose configured log channel 900 does not exist.
\<close>

theorem manual_transcript_delivers_to_nobody_without_log_channel:
  "STAFF_LOG_CHANNEL_ID example_config = Some 900
   \<and> logChannel example_config example_env example_world_no_log = None
   \<and> isStaff example_config (Some example_staff)
   \<and> interactionCreate example_config example_env example_world_no_log
         (Button ''transcript'' 1 (Some example_staff) example_user)
       = (example_world_no_log
            \<lparr>files := [''/srv/bot/transcripts/500-transcript.txt''
                         \<mapsto> transcript_text example_channel (rev example_messages)]\<rparr>,
          [Reply (Embed Info ''Transcript'')])
   \<and> interactionCreate example_config example_env example_world_no_log
         (Command ''transcript'' (Some example_staff) example_user example_channel)
       = (example_world_no_log
            \<lparr>files := [''/srv/bot/transcripts/500-transcript.txt''
                         \<mapsto> transcript_text example_channel (rev example_messages)]\<rparr>,
          [Reply (Embed Info ''Transcript'')])"
  by (simp add: example_defs example_world_no_log_def handler_defs deliver_manual_def
        archive_def logChannel_def transcript_eval transcript_spec_eval Let_def)

section \<open>Opening a ticket\<close>

lemma createTicket_keeps_pending:
  "pendingCategoryForUser (fst (createTicketChannelFromChoice cfg e w usr categoryIndex topic'))
   = pendingCategoryForUser w"
  by (simp add: createTicketChannelFromChoice_def getOrCreateCategoryByName_def
        insertTicketRow_def Let_def split: option.splits prod.splits)

text \<open>
  C8. Selecting a category stores the choice in \<open>pendingCategoryForUser\<close> under the
  id of the requester, whatever was stored there before, and changes nothing else.
  After a topic submission the requester has no entry. When the requester had no entry,
  the submission is answered with one error reply and the state is as before: no
  channel and no row is created.
\<close>

theorem pending_choice_handoff:
  "(let (w', effects) = interactionCreate cfg e w (SelectMenu usr chosen)
    in w' = w\<lparr>pendingCategoryForUser := (pendingCategoryForUser w)(u_id usr \<mapsto> chosen)\<rparr>
       \<and> pendingCategoryForUser w' (u_id usr) = Some chosen)
   \<and> pendingCategoryForUser (fst (interactionCreate cfg e w (ModalSubmit usr topic_input))) (u_id usr)
       = None
   \<and> (pendingCategoryForUser w (u_id usr) = None \<longrightarrow>
        interactionCreate cfg e w (ModalSubmit usr topic_input)
          = (w, [Reply (Embed Error ''Fout'')]))"
proof (intro conjI impI)
  show "let (w', effects) = interactionCreate cfg e w (SelectMenu usr chosen)
    in w' = w\<lparr>pendingCategoryForUser := (pendingCategoryForUser w)(u_id usr \<mapsto> chosen)\<rparr>
       \<and> pendingCategoryForUser w' (u_id usr) = Some chosen"
    by (simp add: on_select_def Let_def)
next
  let ?w1 = "w\<lparr>pendingCategoryForUser := (pendingCategoryForUser w)(u_id usr := None)\<rparr>"
  show "pendingCategoryForUser (fst (interactionCreate cfg e w (ModalSubmit usr topic_input))) (u_id usr)
       = None"
  proof (cases "or_null (pendingCategoryForUser w (u_id usr))")
    case None
    then show ?thesis by (simp add: on_modal_submit_def Let_def)
  next
    case (Some chosen')
    let ?made = "createTicketChannelFromChoice cfg e ?w1 usr (parseInt chosen')
                   (or_null (Some topic_input))"
    show ?thesis
    proof (cases "ok e DeferReplyCall")
      case False
      with Some show ?thesis by (simp add: on_modal_submit_def Let_def)
    next
      case True
      with Some have "fst (interactionCreate cfg e w (ModalSubmit usr topic_input)) = fst ?made"
        by (simp add: on_modal_submit_def Let_def split: prod.splits sum.splits)
      with createTicket_keeps_pending [of cfg e ?w1 usr "parseInt chosen'"
          "or_null (Some topic_input)"]
      show ?thesis by simp
    qed
  qed
next
  assume none: "pendingCategoryForUser w (u_id usr) = None"
  then have "(pendingCategoryForUser w)(u_id usr := None) = pendingCategoryForUser w"
    by (simp add: fun_upd_idem_iff)
  with none show "interactionCreate cfg e w (ModalSubmit usr topic_input)
          = (w, [Reply (Embed Error ''Fout'')])"
    by (simp add: on_modal_submit_def or_null_def Let_def)
qed

theorem pending_choice_handoff_witness:
  "pendingCategoryForUser
     (fst (interactionCreate example_config example_env
            (fst (interactionCreate example_config example_env example_world
                    (SelectMenu example_user ''3'')))
            (SelectMenu example_user ''5''))) 7 = Some ''5''
   \<and> interactionCreate example_config example_env example_world (ModalSubmit example_user ''help'')
       = (example_world, [Reply (Embed Error ''Fout'')])"
  using pending_choice_handoff [of example_config example_env
      "fst (interactionCreate example_config example_env example_world (SelectMenu example_user ''3''))"
      example_user "''5''" "''help''"]
    pending_choice_handoff [of example_config example_env example_world example_user "''5''" "''help''"]
  by (simp add: example_defs on_select_def Let_def)

lemma category_at_out_of_range: "out_of_range categoryIndex \<Longrightarrow> category_at categoryIndex = None"
  by (auto simp: out_of_range_def category_at_def CATEGORIES_def split: option.splits)

lemma category_at_7: "category_at (Some 7) = Some ''Overige Vragen''"
  by (simp add: category_at_def CATEGORIES_def)

lemma fallback_name:
  "out_of_range categoryIndex \<Longrightarrow>
   or_else (category_at categoryIndex) ''Overige Vragen'' = ''Overige Vragen''"
  by (simp add: category_at_out_of_range or_else_def)

lemma getOrCreateCategoryByName_found:
  assumes "ok e CreateCategory"
  shows "\<exists>w1 parent. getOrCreateCategoryByName e w name = (w1, Some parent)
           \<and> parent \<in> set (channels w1) \<and> ch_type parent = GuildCategory \<and> ch_name parent = name
           \<and> tickets w1 = tickets w \<and> sqlite_sequence w1 = sqlite_sequence w"
proof (cases "find (\<lambda>c. ch_type c = GuildCategory \<and> ch_name c = name) (channels w)")
  case None
  with assms show ?thesis
    by (simp add: getOrCreateCategoryByName_def Let_def)
next
  case (Some c)
  then have "c \<in> set (channels w)" "ch_type c = GuildCategory" "ch_name c = name"
    by (auto simp: find_Some_iff)
  with Some show ?thesis
    by (simp add: getOrCreateCategoryByName_def)
qed

lemma unique_name_starts_with_base: "\<exists>rest. unique_name names base = base @ rest"
proof -
  from unique_loop_first [of 0 base names] obtain k
    where "unique_name names base = candidate base k"
    by (auto simp: unique_name_def candidate_def)
  then show ?thesis
    by (cases "k = 0") (simp_all add: candidate_def)
qed

lemma normalized_fallback: "normalizeForName ''Overige Vragen'' = ''overige-vragen''"
  by (simp add: string_eval)

lemma fallback_channel_name:
  "\<exists>rest. unique_name names (channel_base e usr ''Overige Vragen'') = ''overige-vragen-'' @ rest"
proof -
  obtain tail where "channel_base e usr ''Overige Vragen'' = ''overige-vragen-'' @ tail"
    by (simp add: channel_base_def normalized_fallback Let_def)
  with unique_name_starts_with_base [of names "channel_base e usr ''Overige Vragen''"]
  show ?thesis by auto
qed

lemma fallback_ticket_created:
  assumes out: "out_of_range categoryIndex"
    and oks: "ok e CreateCategory \<and> ok e CreateChannel \<and> ok e ChannelSend"
  shows "\<exists>w' sent created ticketId parent row rest.
             createTicketChannelFromChoice cfg e w usr categoryIndex topic'
               = (w', sent, Inr (created, ticketId))
             \<and> parent \<in> set (channels w') \<and> ch_type parent = GuildCategory
             \<and> ch_name parent = ''Overige Vragen''
             \<and> created \<in> set (channels w') \<and> ch_parent created = Some (ch_id parent)
             \<and> ch_name created = ''overige-vragen-'' @ rest
             \<and> tickets w' = tickets w @ [row] \<and> ticket_id row = ticketId
             \<and> channel_id row = ch_id created \<and> status row = ''open''
             \<and> category row = Some ''Overige Vragen''"
proof -
  let ?name = "''Overige Vragen''"
  from oks getOrCreateCategoryByName_found [of e w ?name] obtain w1 parent where
    got: "getOrCreateCategoryByName e w ?name = (w1, Some parent)"
    and parent: "parent \<in> set (channels w1)" "ch_type parent = GuildCategory"
      "ch_name parent = ?name"
    and kept: "tickets w1 = tickets w" "sqlite_sequence w1 = sqlite_sequence w"
    by blast
  obtain rest where name:
    "unique_name (map ch_name (channels w1)) (channel_base e usr ?name) = ''overige-vragen-'' @ rest"
    using fallback_channel_name by blast
  let ?created = "\<lparr>ch_id = next_snowflake w1,
     ch_name = unique_name (map ch_name (channels w1)) (channel_base e usr ?name),
     ch_type = GuildText, ch_parent = Some (ch_id parent)\<rparr>"
  let ?row = "\<lparr>ticket_id = Suc (sqlite_sequence w1), guild_id = guild w1,
     channel_id = next_snowflake w1, owner_id = u_id usr, claimed_by = None, status = ''open'',
     category = Some ?name, topic = or_null (or_null topic'), created_at = now e\<rparr>"
  let ?w' = "w1\<lparr>channels := channels w1 @ [?created],
     next_snowflake := Suc (next_snowflake w1),
     tickets := tickets w1 @ [?row], sqlite_sequence := Suc (sqlite_sequence w1)\<rparr>"
  from oks got have "\<exists>sent. createTicketChannelFromChoice cfg e w usr categoryIndex topic'
      = (?w', sent, Inr (?created, Suc (sqlite_sequence w1)))"
    by (simp add: createTicketChannelFromChoice_def fallback_name [OF out] insertTicketRow_def
          Let_def)
  then obtain sent where made: "createTicketChannelFromChoice cfg e w usr categoryIndex topic'
      = (?w', sent, Inr (?created, Suc (sqlite_sequence w1)))"
    by blast
  show ?thesis
    apply (rule exI [of _ ?w'])
    apply (rule exI [of _ sent])
    apply (rule exI [of _ ?created])
    apply (rule exI [of _ "Suc (sqlite_sequence w1)"])
    apply (rule exI [of _ parent])
    apply (rule exI [of _ ?row])
    apply (rule exI [of _ rest])
    using made parent kept name apply simp
    done
qed

lemma fallback_same_as_index_7:
  assumes out: "out_of_range categoryIndex"
  shows "createTicketChannelFromChoice cfg e w usr categoryIndex topic'
       = createTicketChannelFromChoice cfg e w usr (Some 7) topic'"
proof -
  have "or_else (category_at (Some 7)) ''Overige Vragen'' = ''Overige Vragen''"
    by (simp add: category_at_7 or_else_def)
  with fallback_name [OF out] show ?thesis
    by (simp add: createTicketChannelFromChoice_def)
qed

text \<open>
  C10. For an index that is \<open>NaN\<close> or outside 0 .. 16, ticket creation behaves as it
  does for index 7, the category \<open>Overige Vragen\<close>; when the platform calls succeed, it
  returns the created channel and the id of the new row, the channel lies under a
  category named \<open>Overige Vragen\<close> and its name starts with \<open>overige-vragen-\<close>, and the
  new row is open with that category. A topic submission whose pending value parses to
  such an index, once its reply is deferred, runs the creation for index 7 on the state
  without the pending entry; with the creation calls succeeding it ends in the state
  that this creation gives, with one new open row of that category, and edits the reply
  to the success message (when that edit is rejected, the error edit and the outer
  \<open>catch\<close> follow, and the ticket stays). When the deferral is rejected, the
  submission creates nothing, whatever the index.
\<close>

theorem out_of_range_category_falls_back:
  assumes out: "out_of_range categoryIndex"
    and parsed: "out_of_range (parseInt chosen)"
  shows
    "createTicketChannelFromChoice cfg e w usr categoryIndex topic'
       = createTicketChannelFromChoice cfg e w usr (Some 7) topic'
     \<and> (ok e CreateCategory \<and> ok e CreateChannel \<and> ok e ChannelSend \<longrightarrow>
          (\<exists>w' sent created ticketId parent row rest.
             createTicketChannelFromChoice cfg e w usr categoryIndex topic'
               = (w', sent, Inr (created, ticketId))
             \<and> parent \<in> set (channels w') \<and> ch_type parent = GuildCategory
             \<and> ch_name parent = ''Overige Vragen''
             \<and> created \<in> set (channels w') \<and> ch_parent created = Some (ch_id parent)
             \<and> ch_name created = ''overige-vragen-'' @ rest
             \<and> tickets w' = tickets w @ [row] \<and> ticket_id row = ticketId
             \<and> channel_id row = ch_id created \<and> status row = ''open''
             \<and> category row = Some ''Overige Vragen''))
     \<and> (pendingCategoryForUser w (u_id usr) = Some chosen \<and> chosen \<noteq> []
          \<and> ok e DeferReplyCall
          \<and> ok e CreateCategory \<and> ok e CreateChannel \<and> ok e ChannelSend \<longrightarrow>
          (\<exists>w' sent opened row.
             createTicketChannelFromChoice cfg e
                 (w\<lparr>pendingCategoryForUser := (pendingCategoryForUser w)(u_id usr := None)\<rparr>)
                 usr (Some 7) (or_null (Some topic_input))
               = (w', sent, Inr opened)
             \<and> interactionCreate cfg e w (ModalSubmit usr topic_input)
               = (w', DeferReply # sent
                       @ EditReply (Embed Success ''Je ticket is geopend'')
                       # (if ok e EditReplyCall then []
                          else [ConsoleError, EditReply (Embed Error ''Fout bij aanmaken''),
                                ConsoleError, Reply (Embed Error ''Error'')]))
             \<and> tickets w' = tickets w @ [row] \<and> status row = ''open''
             \<and> category row = Some ''Overige Vragen''))
     \<and> (pendingCategoryForUser w (u_id usr) = Some chosen \<and> chosen \<noteq> []
          \<and> \<not> ok e DeferReplyCall \<longrightarrow>
          interactionCreate cfg e w (ModalSubmit usr topic_input)
            = (w\<lparr>pendingCategoryForUser := (pendingCategoryForUser w)(u_id usr := None)\<rparr>,
               [DeferReply, ConsoleError, Reply (Embed Error ''Error'')]))"
proof (intro conjI impI)
  show "createTicketChannelFromChoice cfg e w usr categoryIndex topic'
       = createTicketChannelFromChoice cfg e w usr (Some 7) topic'"
    by (rule fallback_same_as_index_7 [OF out])
next
  assume "ok e CreateCategory \<and> ok e CreateChannel \<and> ok e ChannelSend"
  then show "\<exists>w' sent created ticketId parent row rest.
             createTicketChannelFromChoice cfg e w usr categoryIndex topic'
               = (w', sent, Inr (created, ticketId))
             \<and> parent \<in> set (channels w') \<and> ch_type parent = GuildCategory
             \<and> ch_name parent = ''Overige Vragen''
             \<and> created \<in> set (channels w') \<and> ch_parent created = Some (ch_id parent)
             \<and> ch_name created = ''overige-vragen-'' @ rest
             \<and> tickets w' = tickets w @ [row] \<and> ticket_id row = ticketId
             \<and> channel_id row = ch_id created \<and> status row = ''open''
             \<and> category row = Some ''Overige Vragen''"
    by (rule fallback_ticket_created [OF out])
next
  assume a: "pendingCategoryForUser w (u_id usr) = Some chosen \<and> chosen \<noteq> []
          \<and> ok e DeferReplyCall
          \<and> ok e CreateCategory \<and> ok e CreateChannel \<and> ok e ChannelSend"
  let ?w1 = "w\<lparr>pendingCategoryForUser := (pendingCategoryForUser w)(u_id usr := None)\<rparr>"
  from a have oks: "ok e CreateCategory \<and> ok e CreateChannel \<and> ok e ChannelSend" by simp
  from fallback_ticket_created [OF parsed oks, of cfg ?w1 usr "or_null (Some topic_input)"]
  obtain w' sent created ticketId row where
    made: "createTicketChannelFromChoice cfg e ?w1 usr (parseInt chosen) (or_null (Some topic_input))
             = (w', sent, Inr (created, ticketId))"
    and row: "tickets w' = tickets ?w1 @ [row]" "status row = ''open''"
      "category row = Some ''Overige Vragen''"
    by blast
  from made fallback_same_as_index_7 [OF parsed, of cfg e ?w1 usr "or_null (Some topic_input)"]
  have seventh: "createTicketChannelFromChoice cfg e ?w1 usr (Some 7) (or_null (Some topic_input))
             = (w', sent, Inr (created, ticketId))"
    by simp
  from a made have "interactionCreate cfg e w (ModalSubmit usr topic_input)
               = (w', DeferReply # sent
                       @ EditReply (Embed Success ''Je ticket is geopend'')
                       # (if ok e EditReplyCall then []
                          else [ConsoleError, EditReply (Embed Error ''Fout bij aanmaken''),
                                ConsoleError, Reply (Embed Error ''Error'')]))"
    by (simp add: on_modal_submit_def or_null_def caught_def Let_def)
  with row seventh show "\<exists>w' sent opened row.
             createTicketChannelFromChoice cfg e ?w1 usr (Some 7) (or_null (Some topic_input))
               = (w', sent, Inr opened)
             \<and> interactionCreate cfg e w (ModalSubmit usr topic_input)
               = (w', DeferReply # sent
                       @ EditReply (Embed Success ''Je ticket is geopend'')
                       # (if ok e EditReplyCall then []
                          else [ConsoleError, EditReply (Embed Error ''Fout bij aanmaken''),
                                ConsoleError, Reply (Embed Error ''Error'')]))
             \<and> tickets w' = tickets w @ [row] \<and> status row = ''open''
             \<and> category row = Some ''Overige Vragen''"
    by auto
next
  assume "pendingCategoryForUser w (u_id usr) = Some chosen \<and> chosen \<noteq> []
          \<and> \<not> ok e DeferReplyCall"
  then show "interactionCreate cfg e w (ModalSubmit usr topic_input)
            = (w\<lparr>pendingCategoryForUser := (pendingCategoryForUser w)(u_id usr := None)\<rparr>,
               [DeferReply, ConsoleError, Reply (Embed Error ''Error'')])"
    by (simp add: on_modal_submit_def or_null_def caught_def Let_def)
qed

lemmas creation_eval =
  on_modal_submit_def createTicketChannelFromChoice_def getOrCreateCategoryByName_def
  channel_base_def insertTicketRow_def parseInt_def is_digit_def category_at_def CATEGORIES_def
  or_else_def or_null_def logChannel_def out_of_range_def

theorem out_of_range_category_falls_back_witness:
  "out_of_range (Some 17) \<and> out_of_range (parseInt ''abc'')
   \<and> createTicketChannelFromChoice example_config example_env example_world example_user
        (Some 17) None
      = createTicketChannelFromChoice example_config example_env example_world example_user
        (Some 7) None
   \<and> interactionCreate example_config example_env example_pending_world
        (ModalSubmit example_user ''lost item'')
      = (example_world
           \<lparr>tickets := [example_row,
               \<lparr>ticket_id = 2, guild_id = 100, channel_id = 902, owner_id = 7,
                  claimed_by = None, status = ''open'', category = Some ''Overige Vragen'',
                  topic = Some ''lost item'', created_at = 2000\<rparr>],
             sqlite_sequence := 2,
             channels := [example_channel, example_log_channel,
               \<lparr>ch_id = 901, ch_name = ''Overige Vragen'', ch_type = GuildCategory,
                  ch_parent = None\<rparr>,
               \<lparr>ch_id = 902, ch_name = ''overige-vragen-alice-neo'', ch_type = GuildText,
                  ch_parent = Some 901\<rparr>],
             next_snowflake := 903\<rparr>,
         [DeferReply, Send 902 (Embed Info ''Nieuw ticket''),
          LogSend (Embed Info ''Nieuw ticket geopend'') None True,
          EditReply (Embed Success ''Je ticket is geopend'')])
   \<and> interactionCreate example_config example_env_no_defer example_pending_world
        (ModalSubmit example_user ''lost item'')
      = (example_world, [DeferReply, ConsoleError, Reply (Embed Error ''Error'')])"
proof -
  let ?opened = "example_world
           \<lparr>tickets := [example_row,
               \<lparr>ticket_id = 2, guild_id = 100, channel_id = 902, owner_id = 7,
                  claimed_by = None, status = ''open'', category = Some ''Overige Vragen'',
                  topic = Some ''lost item'', created_at = 2000\<rparr>],
             sqlite_sequence := 2,
             channels := [example_channel, example_log_channel,
               \<lparr>ch_id = 901, ch_name = ''Overige Vragen'', ch_type = GuildCategory,
                  ch_parent = None\<rparr>,
               \<lparr>ch_id = 902, ch_name = ''overige-vragen-alice-neo'', ch_type = GuildText,
                  ch_parent = Some 901\<rparr>],
             next_snowflake := 903\<rparr>"
  have index: "out_of_range (Some 17)"
    by (simp add: out_of_range_def)
  have nan: "out_of_range (parseInt ''abc'')"
    by (simp add: out_of_range_def parseInt_def is_digit_def is_space_def code_def)
  have pending: "pendingCategoryForUser example_pending_world (u_id example_user) = Some ''abc''"
    "example_pending_world
       \<lparr>pendingCategoryForUser := (pendingCategoryForUser example_pending_world)
                                    (u_id example_user := None)\<rparr> = example_world"
    by (simp_all add: example_defs example_pending_world_def)
  have fine: "ok example_env DeferReplyCall" "ok example_env EditReplyCall"
    "ok example_env CreateCategory" "ok example_env CreateChannel" "ok example_env ChannelSend"
    by (simp_all add: example_env_def)
  have seventh: "createTicketChannelFromChoice example_config example_env example_world
        example_user (Some 7) (or_null (Some ''lost item''))
      = (?opened,
         [Send 902 (Embed Info ''Nieuw ticket''),
          LogSend (Embed Info ''Nieuw ticket geopend'') None True],
         Inr (\<lparr>ch_id = 902, ch_name = ''overige-vragen-alice-neo'', ch_type = GuildText,
                 ch_parent = Some 901\<rparr>, 2))"
    by (simp add: example_defs creation_eval string_eval name_eval Let_def)
  from out_of_range_category_falls_back [OF index nan, where cfg = example_config
      and e = example_env and w = example_pending_world and usr = example_user
      and topic_input = "''lost item''"] pending fine seventh
  have run: "interactionCreate example_config example_env example_pending_world
        (ModalSubmit example_user ''lost item'')
      = (?opened,
         [DeferReply, Send 902 (Embed Info ''Nieuw ticket''),
          LogSend (Embed Info ''Nieuw ticket geopend'') None True,
          EditReply (Embed Success ''Je ticket is geopend'')])"
    by auto
  have refused: "\<not> ok example_env_no_defer DeferReplyCall"
    by (simp add: example_env_no_defer_def)
  from out_of_range_category_falls_back [OF index nan, where cfg = example_config
      and e = example_env_no_defer and w = example_pending_world and usr = example_user
      and topic_input = "''lost item''"] pending refused
  have stopped: "interactionCreate example_config example_env_no_defer example_pending_world
        (ModalSubmit example_user ''lost item'')
      = (example_world, [DeferReply, ConsoleError, Reply (Embed Error ''Error'')])"
    by simp
  from out_of_range_category_falls_back [OF index nan, of example_config example_env
      example_world example_user None]
  have "createTicketChannelFromChoice example_config example_env example_world example_user
        (Some 17) None
      = createTicketChannelFromChoice example_config example_env example_world example_user
        (Some 7) None"
    by blast
  with index nan run stopped show ?thesis by blast
qed

end
